theory Spec2Isabelle
  imports Main "HOL-Library.Sublist"
begin

section \<open>The deployment script \<open>main.py\<close> as a program over a cloud client\<close>

text \<open>
  The script talks to the cloud through \<open>boto3\<close>. Everything it does is visible as a
  sequence of SDK calls, log records and one sleep, so the model runs the script against a
  client that is a parameter (a record of operations over a state of the cloud) and records
  that sequence: each SDK call with its arguments and its response, each log record with its
  level and text, and the sleep with its duration.
\<close>

subsection \<open>Exceptions\<close>

text \<open>
  What an SDK call can raise. The script imports \<open>ClientError\<close> from
  \<open>botocore.exceptions\<close> and catches nothing else; \<open>ClientError\<close> carries
  the text \<open>str(e)\<close>, the only part of it the script reads. A waiter that gives up
  raises \<open>WaiterError\<close>, which is a \<open>BotoCoreError\<close> and not a
  \<open>ClientError\<close>; \<open>OtherBotoCoreError\<close> stands for the remaining
  exceptions of the SDK (no connection, no credentials), none of them a \<open>ClientError\<close>.
\<close>

datatype boto_exn =
    ClientError string
  | WaiterError string
  | OtherBotoCoreError string

text \<open>
  How a function of the script ends when it does not return: an exception of the SDK
  left uncaught, \<open>IndexError\<close> from \<open>xs[0]\<close> on an empty list, or
  \<open>SystemExit\<close> raised by \<open>sys.exit\<close>.
\<close>

datatype exn =
    Raised boto_exn
  | IndexError
  | SystemExit int

subsection \<open>Requests, responses and the recorded events\<close>

record vpc =
  VpcId :: string

record security_group =
  GroupId :: string
  GroupName :: string
  GroupVpcId :: string

record ip_permission =
  IpProtocol :: string
  FromPort :: int
  ToPort :: int
  IpRanges :: "string list"  \<comment> \<open>the \<open>CidrIp\<close> of each range\<close>

record tag_specification =
  ResourceType :: string
  Tags :: "(string \<times> string) list"  \<comment> \<open>\<open>Key\<close> and \<open>Value\<close>\<close>

record run_instances_request =
  ImageId :: string
  InstanceType :: string
  KeyName :: string
  MinCount :: int
  MaxCount :: int
  SecurityGroupIds :: "string list"
  TagSpecifications :: "tag_specification list"
  UserData :: string

text \<open>
  The \<open>ec2.Instance\<close> resource object: its identifier and the one attribute the
  script reads, which is \<open>None\<close> until the instance has an address.
\<close>

record ec2_instance =
  instance_id :: string
  public_ip_address :: "string option"

datatype level = INFO | WARNING | ERROR

datatype event =
    DescribeVpcs "boto_exn + vpc list"
  | CreateSecurityGroup string string string "boto_exn + string"
      \<comment> \<open>\<open>GroupName\<close>, \<open>Description\<close>, \<open>VpcId\<close>; the response's \<open>GroupId\<close>\<close>
  | AuthorizeSecurityGroupIngress string "ip_permission list" "boto_exn + unit"
  | DescribeSecurityGroups "string list" "boto_exn + security_group list"
  | CreateInstances run_instances_request "boto_exn + ec2_instance list"
  | WaitUntilRunning string "boto_exn + unit"
  | Reload string "boto_exn + string option"
  | MonitorInstances "string list" "boto_exn + unit"
  | Sleep nat
  | Log level string

subsection \<open>The cloud client\<close>

text \<open>
  The operations of \<open>boto3.client('ec2')\<close> and \<open>boto3.resource('ec2')\<close>
  that the script calls, over a state \<open>'s\<close> of the cloud. \<open>api_wait_until_running\<close>
  and \<open>api_reload\<close> are the methods of the instance object, taking its identifier;
  \<open>api_reload\<close> answers with the refreshed address. An operation either raises or
  answers; an answer has the keys that the script reads from it (\<open>Vpcs\<close>,
  \<open>GroupId\<close>, \<open>SecurityGroups\<close>), and its lists may be empty.
\<close>

record 's ec2 =
  api_describe_vpcs :: "'s \<Rightarrow> (boto_exn + vpc list) \<times> 's"
  api_create_security_group :: "string \<Rightarrow> string \<Rightarrow> string \<Rightarrow> 's \<Rightarrow> (boto_exn + string) \<times> 's"
  api_authorize_security_group_ingress ::
    "string \<Rightarrow> ip_permission list \<Rightarrow> 's \<Rightarrow> (boto_exn + unit) \<times> 's"
  api_describe_security_groups :: "string list \<Rightarrow> 's \<Rightarrow> (boto_exn + security_group list) \<times> 's"
  api_create_instances :: "run_instances_request \<Rightarrow> 's \<Rightarrow> (boto_exn + ec2_instance list) \<times> 's"
  api_wait_until_running :: "string \<Rightarrow> 's \<Rightarrow> (boto_exn + unit) \<times> 's"
  api_reload :: "string \<Rightarrow> 's \<Rightarrow> (boto_exn + string option) \<times> 's"
  api_monitor_instances :: "string list \<Rightarrow> 's \<Rightarrow> (boto_exn + unit) \<times> 's"

subsection \<open>Programs: state, trace and exceptions\<close>

record 's world =
  cloud :: 's
  trace :: "event list"

type_synonym ('s, 'a) prog = "'s world \<Rightarrow> (exn + 'a) \<times> 's world"

definition ret :: "'a \<Rightarrow> ('s, 'a) prog" where
  "ret x w = (Inr x, w)"

definition raise :: "exn \<Rightarrow> ('s, 'a) prog" where
  "raise e w = (Inl e, w)"

text \<open>Sequencing: an exception of the first statement skips the rest.\<close>

definition andthen :: "('s, 'a) prog \<Rightarrow> ('a \<Rightarrow> ('s, 'b) prog) \<Rightarrow> ('s, 'b) prog" where
  "andthen m f w = (case m w of (Inl e, w') \<Rightarrow> (Inl e, w') | (Inr x, w') \<Rightarrow> f x w')"

text \<open>
  \<open>try: m except ClientError as e: h(str(e))\<close>. Only a \<open>ClientError\<close> raised
  in the body reaches the handler; what the handler raises is not caught again.
\<close>

definition except_ClientError :: "('s, 'a) prog \<Rightarrow> (string \<Rightarrow> ('s, 'a) prog) \<Rightarrow> ('s, 'a) prog" where
  "except_ClientError m h w =
     (case m w of
        (Inl (Raised (ClientError e)), w') \<Rightarrow> h e w'
      | r \<Rightarrow> r)"

text \<open>An SDK call: run the operation on the cloud and record the call with its response.\<close>

definition api :: "('s \<Rightarrow> (boto_exn + 'r) \<times> 's) \<Rightarrow> ((boto_exn + 'r) \<Rightarrow> event) \<Rightarrow> ('s, 'r) prog" where
  "api operation ev w =
     (case operation (cloud w) of
        (r, s') \<Rightarrow>
          ((case r of Inl e \<Rightarrow> Inl (Raised e) | Inr x \<Rightarrow> Inr x),
           \<lparr>cloud = s', trace = trace w @ [ev r]\<rparr>))"

definition logging :: "level \<Rightarrow> string \<Rightarrow> ('s, unit) prog" where
  "logging l msg w = (Inr (), w\<lparr>trace := trace w @ [Log l msg]\<rparr>)"

definition sleep :: "nat \<Rightarrow> ('s, unit) prog" where
  "sleep n w = (Inr (), w\<lparr>trace := trace w @ [Sleep n]\<rparr>)"

text \<open>\<open>xs[0]\<close>: \<open>IndexError\<close> on the empty list.\<close>

definition index0 :: "'a list \<Rightarrow> ('s, 'a) prog" where
  "index0 xs = (case xs of [] \<Rightarrow> raise IndexError | x # _ \<Rightarrow> ret x)"

text \<open>\<open>f"{x}"\<close> for an attribute that may be \<open>None\<close>.\<close>

definition str_opt :: "string option \<Rightarrow> string" where
  "str_opt x = (case x of None \<Rightarrow> ''None'' | Some a \<Rightarrow> a)"

subsection \<open>Configuration (lines 9 to 45)\<close>

text \<open>
  The module's constants. Three of them come from the environment, with a default; the
  functions read them when they run, so they are a parameter of every function here.
\<close>

record config =
  AWS_REGION :: string
  EC2_INSTANCE_TYPE :: string
  EC2_AMI_ID :: string
  EC2_KEY_NAME :: string
  EC2_SECURITY_GROUP_NAME :: string
  EC2_TAG_NAME :: string
  EC2_USER_DATA_SCRIPT :: string

definition getenv :: "(string \<rightharpoonup> string) \<Rightarrow> string \<Rightarrow> string \<Rightarrow> string" where
  "getenv env name dflt = (case env name of None \<Rightarrow> dflt | Some v \<Rightarrow> v)"

definition user_data_script :: string where
  "user_data_script = concat (map (\<lambda>l. l @ ''\<newline>'')
     [''#!/bin/bash'',
      ''sudo apt-get update -y'',
      ''sudo apt-get install -y python3-pip nginx'',
      ''pip3 install langraph flask'',
      ''cat <<EOF > /home/ubuntu/app.py'',
      ''from flask import Flask, request, jsonify'',
      ''import langraph'',
      [],
      ''app = Flask(__name__)'',
      [],
      ''@app.route('/')'',
      ''def home():'',
      ''    return '' @ [CHR 0x22] @ ''Welcome to Langraph-powered Website!'' @ [CHR 0x22],
      [],
      ''@app.route('/ai', methods=['POST'])'',
      ''def ai_feature():'',
      ''    data = request.json'',
      ''    # Example: Use Langraph to process input'',
      ''    result = langraph.process(data.get('text', '' @ [CHR 0x27, CHR 0x27] @ ''))'',
      ''    return jsonify({'result': result})'',
      [],
      ''if __name__ == '__main__':'',
      ''    app.run(host='0.0.0.0', port=5000)'',
      ''EOF'',
      ''nohup python3 /home/ubuntu/app.py &'',
      ''sudo rm /etc/nginx/sites-enabled/default'',
      ''echo 'server { listen 80; location / { proxy_pass http://localhost:5000; } }' | sudo tee /etc/nginx/sites-available/langraph'',
      ''sudo ln -s /etc/nginx/sites-available/langraph /etc/nginx/sites-enabled/'',
      ''sudo systemctl restart nginx''])"

definition module_config :: "(string \<rightharpoonup> string) \<Rightarrow> config" where
  "module_config env =
     \<lparr>AWS_REGION = getenv env ''AWS_REGION'' ''us-east-1'',
      EC2_INSTANCE_TYPE = ''t3.medium'',
      EC2_AMI_ID = getenv env ''EC2_AMI_ID'' ''ami-0c94855ba95c71c99'',
      EC2_KEY_NAME = getenv env ''EC2_KEY_NAME'' ''my-ec2-keypair'',
      EC2_SECURITY_GROUP_NAME = ''langraph-web-sg'',
      EC2_TAG_NAME = ''LangraphWebServer'',
      EC2_USER_DATA_SCRIPT = user_data_script\<rparr>"

subsection \<open>\<open>create_security_group\<close> (lines 53 to 90)\<close>

text \<open>The \<open>IpPermissions\<close> of lines 66 to 79.\<close>

definition ingress_rules :: "ip_permission list" where
  "ingress_rules =
     [\<lparr>IpProtocol = ''tcp'', FromPort = 22, ToPort = 22, IpRanges = [''0.0.0.0/0'']\<rparr>,
      \<lparr>IpProtocol = ''tcp'', FromPort = 80, ToPort = 80, IpRanges = [''0.0.0.0/0'']\<rparr>]"

text \<open>The body of the \<open>try\<close> (lines 55 to 82).\<close>

definition create_security_group_try :: "config \<Rightarrow> 's ec2 \<Rightarrow> string \<Rightarrow> ('s, string) prog" where
  "create_security_group_try cfg ec2 vpc_id =
     andthen (api (api_create_security_group ec2 (EC2_SECURITY_GROUP_NAME cfg)
                     ''Security group for Langraph web server'' vpc_id)
                  (CreateSecurityGroup (EC2_SECURITY_GROUP_NAME cfg)
                     ''Security group for Langraph web server'' vpc_id)) (\<lambda>sg_id.
     andthen (logging INFO (''Created security group '' @ EC2_SECURITY_GROUP_NAME cfg
                              @ '' with ID '' @ sg_id)) (\<lambda>_.
     andthen (api (api_authorize_security_group_ingress ec2 sg_id ingress_rules)
                  (AuthorizeSecurityGroupIngress sg_id ingress_rules)) (\<lambda>_.
     andthen (logging INFO ''Configured security group ingress rules.'') (\<lambda>_.
     ret sg_id))))"

text \<open>The test of line 84: \<open>"InvalidGroup.Duplicate" in str(e)\<close>.\<close>

definition is_duplicate :: "string \<Rightarrow> bool" where
  "is_duplicate e = sublist ''InvalidGroup.Duplicate'' e"

definition create_security_group :: "config \<Rightarrow> 's ec2 \<Rightarrow> string \<Rightarrow> ('s, string) prog" where
  "create_security_group cfg ec2 vpc_id =
     except_ClientError (create_security_group_try cfg ec2 vpc_id) (\<lambda>e.
       if is_duplicate e then
         andthen (api (api_describe_security_groups ec2 [EC2_SECURITY_GROUP_NAME cfg])
                      (DescribeSecurityGroups [EC2_SECURITY_GROUP_NAME cfg])) (\<lambda>sgs.
         andthen (index0 sgs) (\<lambda>sg.
         ret (GroupId sg)))
       else
         andthen (logging ERROR (''Error creating security group: '' @ e)) (\<lambda>_.
         raise (SystemExit 1)))"

subsection \<open>\<open>launch_ec2_instance\<close> (lines 92 to 127)\<close>

definition instance_request :: "config \<Rightarrow> string \<Rightarrow> run_instances_request" where
  "instance_request cfg sg_id =
     \<lparr>ImageId = EC2_AMI_ID cfg,
      InstanceType = EC2_INSTANCE_TYPE cfg,
      KeyName = EC2_KEY_NAME cfg,
      MinCount = 1,
      MaxCount = 1,
      SecurityGroupIds = [sg_id],
      TagSpecifications = [\<lparr>ResourceType = ''instance'', Tags = [(''Name'', EC2_TAG_NAME cfg)]\<rparr>],
      UserData = EC2_USER_DATA_SCRIPT cfg\<rparr>"

text \<open>The body of the \<open>try\<close> (lines 105 to 124).\<close>

definition launch_try :: "config \<Rightarrow> 's ec2 \<Rightarrow> string \<Rightarrow> ('s, ec2_instance) prog" where
  "launch_try cfg ec2_resource sg_id =
     andthen (api (api_create_instances ec2_resource (instance_request cfg sg_id))
                  (CreateInstances (instance_request cfg sg_id))) (\<lambda>instances.
     andthen (index0 instances) (\<lambda>inst.
     andthen (logging INFO (''Launching EC2 instance '' @ instance_id inst @ ''...'')) (\<lambda>_.
     andthen (api (api_wait_until_running ec2_resource (instance_id inst))
                  (WaitUntilRunning (instance_id inst))) (\<lambda>_.
     andthen (api (api_reload ec2_resource (instance_id inst))
                  (Reload (instance_id inst))) (\<lambda>ip.
     andthen (logging INFO (''EC2 instance is running at '' @ str_opt ip)) (\<lambda>_.
     ret (inst\<lparr>public_ip_address := ip\<rparr>)))))))"

text \<open>
  \<open>boto3\<close> gives the client of a region; building the two handles of lines 93 and 94
  sends nothing to the cloud.
\<close>

definition launch_ec2_instance :: "config \<Rightarrow> (string \<Rightarrow> 's ec2) \<Rightarrow> ('s, ec2_instance) prog" where
  "launch_ec2_instance cfg boto3 =
     (let ec2_resource = boto3 (AWS_REGION cfg);
          ec2_client = boto3 (AWS_REGION cfg)
      in
      andthen (api (api_describe_vpcs ec2_client) DescribeVpcs) (\<lambda>vpcs.
      andthen (index0 vpcs) (\<lambda>v.
      andthen (create_security_group cfg ec2_client (VpcId v)) (\<lambda>sg_id.
      except_ClientError (launch_try cfg ec2_resource sg_id) (\<lambda>e.
        andthen (logging ERROR (''Error launching EC2 instance: '' @ e)) (\<lambda>_.
        raise (SystemExit 1)))))))"

subsection \<open>\<open>setup_monitoring\<close> (lines 129 to 136)\<close>

definition setup_monitoring :: "config \<Rightarrow> (string \<Rightarrow> 's ec2) \<Rightarrow> string \<Rightarrow> ('s, unit) prog" where
  "setup_monitoring cfg boto3 iid =
     (let ec2_client = boto3 (AWS_REGION cfg)
      in
      except_ClientError
        (andthen (api (api_monitor_instances ec2_client [iid]) (MonitorInstances [iid])) (\<lambda>_.
         logging INFO (''Enabled detailed monitoring for instance '' @ iid)))
        (\<lambda>e. logging WARNING (''Could not enable monitoring: '' @ e)))"

subsection \<open>\<open>main\<close> (lines 138 to 155)\<close>

definition main :: "config \<Rightarrow> (string \<Rightarrow> 's ec2) \<Rightarrow> ('s, unit) prog" where
  "main cfg boto3 =
     andthen (logging INFO ''Starting Langraph website deployment on AWS EC2...'') (\<lambda>_.
     andthen (launch_ec2_instance cfg boto3) (\<lambda>inst.
     andthen (setup_monitoring cfg boto3 (instance_id inst)) (\<lambda>_.
     andthen (logging INFO ''Waiting for web server to start...'') (\<lambda>_.
     andthen (sleep 60) (\<lambda>_.
     andthen (logging INFO (''Website should be available at: http://''
                              @ str_opt (public_ip_address inst) @ ''/'')) (\<lambda>_.
     andthen (logging INFO (''AI-powered features available at: http://''
                              @ str_opt (public_ip_address inst)
                              @ ''/ai (POST JSON: {'text': 'your input'})'')) (\<lambda>_.
     logging INFO ''Deployment complete. Monitor instance in AWS Console for resource usage and uptime.'')))))))"

text \<open>A run of the script: \<open>main\<close> from a state of the cloud, with nothing recorded yet.\<close>

definition run :: "('s, 'a) prog \<Rightarrow> 's \<Rightarrow> (exn + 'a) \<times> 's world" where
  "run p s = p \<lparr>cloud = s, trace = []\<rparr>"

definition outcome :: "(exn + 'a) \<times> 's world \<Rightarrow> exn + 'a" where
  "outcome r = fst r"

definition events :: "(exn + 'a) \<times> 's world \<Rightarrow> event list" where
  "events r = trace (snd r)"

text \<open>
  The exit status of the process: \<open>0\<close> when \<open>main\<close> returns, the argument of
  \<open>sys.exit\<close>, and \<open>1\<close> for an exception that reaches the top.
\<close>

definition exit_status :: "exn + unit \<Rightarrow> int" where
  "exit_status r = (case r of Inr _ \<Rightarrow> 0 | Inl (SystemExit n) \<Rightarrow> n | Inl _ \<Rightarrow> 1)"

section \<open>The traces of the script\<close>

text \<open>
  What each function can record and how it can end, whatever the client answers: one rule
  for each path through the function. The rules are proved below to cover every run.
\<close>

inductive lookup_run :: "config \<Rightarrow> exn + string \<Rightarrow> event list \<Rightarrow> bool" for cfg where
  lookup_raised:
    "lookup_run cfg (Inl (Raised x)) [DescribeSecurityGroups [EC2_SECURITY_GROUP_NAME cfg] (Inl x)]"
| lookup_empty:
    "lookup_run cfg (Inl IndexError) [DescribeSecurityGroups [EC2_SECURITY_GROUP_NAME cfg] (Inr [])]"
| lookup_found:
    "lookup_run cfg (Inr (GroupId sg))
       [DescribeSecurityGroups [EC2_SECURITY_GROUP_NAME cfg] (Inr (sg # sgs))]"

definition created_msg :: "config \<Rightarrow> string \<Rightarrow> string" where
  "created_msg cfg g = ''Created security group '' @ EC2_SECURITY_GROUP_NAME cfg @ '' with ID '' @ g"

abbreviation (input) csg :: "config \<Rightarrow> string \<Rightarrow> boto_exn + string \<Rightarrow> event" where
  "csg cfg vpc \<equiv>
     CreateSecurityGroup (EC2_SECURITY_GROUP_NAME cfg) ''Security group for Langraph web server'' vpc"

inductive resolver_run :: "config \<Rightarrow> string \<Rightarrow> exn + string \<Rightarrow> event list \<Rightarrow> bool" for cfg vpc where
  created:
    "resolver_run cfg vpc (Inr g)
       [csg cfg vpc (Inr g), Log INFO (created_msg cfg g),
        AuthorizeSecurityGroupIngress g ingress_rules (Inr ()),
        Log INFO ''Configured security group ingress rules.'']"
| create_raised:
    "\<forall>e. x \<noteq> ClientError e \<Longrightarrow>
     resolver_run cfg vpc (Inl (Raised x)) [csg cfg vpc (Inl x)]"
| create_rejected:
    "\<not> is_duplicate e \<Longrightarrow>
     resolver_run cfg vpc (Inl (SystemExit 1))
       [csg cfg vpc (Inl (ClientError e)), Log ERROR (''Error creating security group: '' @ e)]"
| create_duplicate:
    "is_duplicate e \<Longrightarrow> lookup_run cfg r es \<Longrightarrow>
     resolver_run cfg vpc r (csg cfg vpc (Inl (ClientError e)) # es)"
| authorize_raised:
    "\<forall>e. x \<noteq> ClientError e \<Longrightarrow>
     resolver_run cfg vpc (Inl (Raised x))
       [csg cfg vpc (Inr g), Log INFO (created_msg cfg g),
        AuthorizeSecurityGroupIngress g ingress_rules (Inl x)]"
| authorize_rejected:
    "\<not> is_duplicate e \<Longrightarrow>
     resolver_run cfg vpc (Inl (SystemExit 1))
       [csg cfg vpc (Inr g), Log INFO (created_msg cfg g),
        AuthorizeSecurityGroupIngress g ingress_rules (Inl (ClientError e)),
        Log ERROR (''Error creating security group: '' @ e)]"
| authorize_duplicate:
    "is_duplicate e \<Longrightarrow> lookup_run cfg r es \<Longrightarrow>
     resolver_run cfg vpc r
       ([csg cfg vpc (Inr g), Log INFO (created_msg cfg g),
         AuthorizeSecurityGroupIngress g ingress_rules (Inl (ClientError e))] @ es)"

abbreviation (input) launching_msg :: "ec2_instance \<Rightarrow> event" where
  "launching_msg inst \<equiv> Log INFO (''Launching EC2 instance '' @ instance_id inst @ ''...'')"

abbreviation (input) launch_error :: "string \<Rightarrow> event" where
  "launch_error e \<equiv> Log ERROR (''Error launching EC2 instance: '' @ e)"

inductive provision_run :: "config \<Rightarrow> string \<Rightarrow> exn + ec2_instance \<Rightarrow> event list \<Rightarrow> bool"
  for cfg g where
  running:
    "provision_run cfg g (Inr (inst\<lparr>public_ip_address := ip\<rparr>))
       [CreateInstances (instance_request cfg g) (Inr (inst # insts)), launching_msg inst,
        WaitUntilRunning (instance_id inst) (Inr ()),
        Reload (instance_id inst) (Inr ip),
        Log INFO (''EC2 instance is running at '' @ str_opt ip)]"
| create_instances_raised:
    "\<forall>e. x \<noteq> ClientError e \<Longrightarrow>
     provision_run cfg g (Inl (Raised x)) [CreateInstances (instance_request cfg g) (Inl x)]"
| create_instances_rejected:
    "provision_run cfg g (Inl (SystemExit 1))
       [CreateInstances (instance_request cfg g) (Inl (ClientError e)), launch_error e]"
| create_instances_empty:
    "provision_run cfg g (Inl IndexError) [CreateInstances (instance_request cfg g) (Inr [])]"
| wait_raised:
    "\<forall>e. x \<noteq> ClientError e \<Longrightarrow>
     provision_run cfg g (Inl (Raised x))
       [CreateInstances (instance_request cfg g) (Inr (inst # insts)), launching_msg inst,
        WaitUntilRunning (instance_id inst) (Inl x)]"
| wait_rejected:
    "provision_run cfg g (Inl (SystemExit 1))
       [CreateInstances (instance_request cfg g) (Inr (inst # insts)), launching_msg inst,
        WaitUntilRunning (instance_id inst) (Inl (ClientError e)), launch_error e]"
| reload_raised:
    "\<forall>e. x \<noteq> ClientError e \<Longrightarrow>
     provision_run cfg g (Inl (Raised x))
       [CreateInstances (instance_request cfg g) (Inr (inst # insts)), launching_msg inst,
        WaitUntilRunning (instance_id inst) (Inr ()),
        Reload (instance_id inst) (Inl x)]"
| reload_rejected:
    "provision_run cfg g (Inl (SystemExit 1))
       [CreateInstances (instance_request cfg g) (Inr (inst # insts)), launching_msg inst,
        WaitUntilRunning (instance_id inst) (Inr ()),
        Reload (instance_id inst) (Inl (ClientError e)), launch_error e]"

inductive launch_run :: "config \<Rightarrow> exn + ec2_instance \<Rightarrow> event list \<Rightarrow> bool" for cfg where
  vpcs_raised:
    "launch_run cfg (Inl (Raised x)) [DescribeVpcs (Inl x)]"
| vpcs_empty:
    "launch_run cfg (Inl IndexError) [DescribeVpcs (Inr [])]"
| group_failed:
    "resolver_run cfg (VpcId v) (Inl e) es \<Longrightarrow>
     launch_run cfg (Inl e) (DescribeVpcs (Inr (v # vs)) # es)"
| group_resolved:
    "resolver_run cfg (VpcId v) (Inr g) es \<Longrightarrow> provision_run cfg g r es' \<Longrightarrow>
     launch_run cfg r (DescribeVpcs (Inr (v # vs)) # es @ es')"

inductive monitoring_run :: "string \<Rightarrow> exn + unit \<Rightarrow> event list \<Rightarrow> bool" for iid where
  enabled:
    "monitoring_run iid (Inr ())
       [MonitorInstances [iid] (Inr ()),
        Log INFO (''Enabled detailed monitoring for instance '' @ iid)]"
| rejected:
    "monitoring_run iid (Inr ())
       [MonitorInstances [iid] (Inl (ClientError e)),
        Log WARNING (''Could not enable monitoring: '' @ e)]"
| monitor_raised:
    "\<forall>e. x \<noteq> ClientError e \<Longrightarrow>
     monitoring_run iid (Inl (Raised x)) [MonitorInstances [iid] (Inl x)]"

definition report_lines :: "string option \<Rightarrow> event list" where
  "report_lines ip =
     [Log INFO (''Website should be available at: http://'' @ str_opt ip @ ''/''),
      Log INFO (''AI-powered features available at: http://'' @ str_opt ip
                  @ ''/ai (POST JSON: {'text': 'your input'})''),
      Log INFO ''Deployment complete. Monitor instance in AWS Console for resource usage and uptime.'']"

abbreviation (input) starting :: event where
  "starting \<equiv> Log INFO ''Starting Langraph website deployment on AWS EC2...''"

inductive main_run :: "config \<Rightarrow> exn + unit \<Rightarrow> event list \<Rightarrow> bool" for cfg where
  launch_failed:
    "launch_run cfg (Inl e) es \<Longrightarrow> main_run cfg (Inl e) (starting # es)"
| monitoring_failed:
    "launch_run cfg (Inr inst) es \<Longrightarrow> monitoring_run (instance_id inst) (Inl e) es' \<Longrightarrow>
     main_run cfg (Inl e) (starting # es @ es')"
| completed:
    "launch_run cfg (Inr inst) es \<Longrightarrow> monitoring_run (instance_id inst) (Inr ()) es' \<Longrightarrow>
     main_run cfg (Inr ())
       (starting # es @ es' @ [Log INFO ''Waiting for web server to start...'', Sleep 60]
          @ report_lines (public_ip_address inst))"

section \<open>Observations on a trace\<close>

fun is_create_instances :: "event \<Rightarrow> bool" where
  "is_create_instances (CreateInstances _ _) = True"
| "is_create_instances _ = False"

fun is_create_security_group :: "event \<Rightarrow> bool" where
  "is_create_security_group (CreateSecurityGroup _ _ _ _) = True"
| "is_create_security_group _ = False"



fun is_monitor :: "event \<Rightarrow> bool" where
  "is_monitor (MonitorInstances _ _) = True"
| "is_monitor _ = False"

fun is_sleep :: "event \<Rightarrow> bool" where
  "is_sleep (Sleep _) = True"
| "is_sleep _ = False"

fun is_log :: "event \<Rightarrow> bool" where
  "is_log (Log _ _) = True"
| "is_log _ = False"

fun is_error_log :: "event \<Rightarrow> bool" where
  "is_error_log (Log ERROR _) = True"
| "is_error_log _ = False"

text \<open>The call was answered with a \<open>ClientError\<close>.\<close>

fun rejected_call :: "event \<Rightarrow> bool" where
  "rejected_call (DescribeVpcs (Inl (ClientError _))) = True"
| "rejected_call (CreateSecurityGroup _ _ _ (Inl (ClientError _))) = True"
| "rejected_call (AuthorizeSecurityGroupIngress _ _ (Inl (ClientError _))) = True"
| "rejected_call (DescribeSecurityGroups _ (Inl (ClientError _))) = True"
| "rejected_call (CreateInstances _ (Inl (ClientError _))) = True"
| "rejected_call (WaitUntilRunning _ (Inl (ClientError _))) = True"
| "rejected_call (Reload _ (Inl (ClientError _))) = True"
| "rejected_call (MonitorInstances _ (Inl (ClientError _))) = True"
| "rejected_call _ = False"

text \<open>The instance resources that the answer to a creation request lists.\<close>

fun created_instances :: "event \<Rightarrow> nat" where
  "created_instances (CreateInstances _ (Inr insts)) = length insts"
| "created_instances _ = 0"

definition instances_created :: "event list \<Rightarrow> nat" where
  "instances_created es = sum_list (map created_instances es)"


text \<open>
  The steps of a run. Describing the networks belongs to the resolution of the group: the
  network found is passed to nothing else. The report is made of the last three log
  records of \<open>main\<close>.
\<close>

datatype step = ResolveGroup | LaunchInstance | AttemptMonitoring | Settle | Report

definition is_report :: "string \<Rightarrow> bool" where
  "is_report msg =
     (prefix ''Website should be available at: http://'' msg
      \<or> prefix ''AI-powered features available at: http://'' msg
      \<or> prefix ''Deployment complete.'' msg)"

fun step_of :: "event \<Rightarrow> step option" where
  "step_of (DescribeVpcs _) = Some ResolveGroup"
| "step_of (CreateSecurityGroup _ _ _ _) = Some ResolveGroup"
| "step_of (AuthorizeSecurityGroupIngress _ _ _) = Some ResolveGroup"
| "step_of (DescribeSecurityGroups _ _) = Some ResolveGroup"
| "step_of (CreateInstances _ _) = Some LaunchInstance"
| "step_of (WaitUntilRunning _ _) = Some LaunchInstance"
| "step_of (Reload _ _) = Some LaunchInstance"
| "step_of (MonitorInstances _ _) = Some AttemptMonitoring"
| "step_of (Sleep _) = Some Settle"
| "step_of (Log _ msg) = (if is_report msg then Some Report else None)"

definition steps :: "event list \<Rightarrow> step list" where
  "steps es = remdups_adj (List.map_filter step_of es)"

text \<open>The calls of a trace, by the name of the operation, log records left out.\<close>

fun call_name :: "event \<Rightarrow> string option" where
  "call_name (DescribeVpcs _) = Some ''describe_vpcs''"
| "call_name (CreateSecurityGroup _ _ _ _) = Some ''create_security_group''"
| "call_name (AuthorizeSecurityGroupIngress _ _ _) = Some ''authorize_security_group_ingress''"
| "call_name (DescribeSecurityGroups _ _) = Some ''describe_security_groups''"
| "call_name (CreateInstances _ _) = Some ''create_instances''"
| "call_name (WaitUntilRunning _ _) = Some ''wait_until_running''"
| "call_name (Reload _ _) = Some ''reload''"
| "call_name (MonitorInstances _ _) = Some ''monitor_instances''"
| "call_name (Sleep _) = Some ''sleep''"
| "call_name (Log _ _) = None"

definition calls :: "event list \<Rightarrow> string list" where
  "calls es = List.map_filter call_name es"

text \<open>What \<open>main\<close> reports at the end: the log records after the sleep.\<close>

definition report :: "event list \<Rightarrow> event list" where
  "report es = tl (dropWhile (\<lambda>ev. \<not> is_sleep ev) es)"

section \<open>Clients for the scenarios\<close>

text \<open>A client that answers each operation as scripted, whatever the arguments and the state.\<close>

record script =
  on_describe_vpcs :: "boto_exn + vpc list"
  on_create_security_group :: "boto_exn + string"
  on_authorize_security_group_ingress :: "boto_exn + unit"
  on_describe_security_groups :: "boto_exn + security_group list"
  on_create_instances :: "boto_exn + ec2_instance list"
  on_wait_until_running :: "boto_exn + unit"
  on_reload :: "boto_exn + string option"
  on_monitor_instances :: "boto_exn + unit"

definition scripted :: "script \<Rightarrow> 's ec2" where
  "scripted sc =
     \<lparr>api_describe_vpcs = (\<lambda>s. (on_describe_vpcs sc, s)),
      api_create_security_group = (\<lambda>_ _ _ s. (on_create_security_group sc, s)),
      api_authorize_security_group_ingress = (\<lambda>_ _ s. (on_authorize_security_group_ingress sc, s)),
      api_describe_security_groups = (\<lambda>_ s. (on_describe_security_groups sc, s)),
      api_create_instances = (\<lambda>_ s. (on_create_instances sc, s)),
      api_wait_until_running = (\<lambda>_ s. (on_wait_until_running sc, s)),
      api_reload = (\<lambda>_ s. (on_reload sc, s)),
      api_monitor_instances = (\<lambda>_ s. (on_monitor_instances sc, s))\<rparr>"

text \<open>
  Modelled from the spec: the request of the end-to-end scenario of section 8 (image
  \<open>img-1\<close>, size \<open>small\<close>, key \<open>k1\<close>, group \<open>web-sg\<close>, tag \<open>Server1\<close>, payload
  \<open><script>\<close>); the repository has no test that builds it.
\<close>

definition scenario_config :: config where
  "scenario_config =
     \<lparr>AWS_REGION = ''us-east-1'',
      EC2_INSTANCE_TYPE = ''small'',
      EC2_AMI_ID = ''img-1'',
      EC2_KEY_NAME = ''k1'',
      EC2_SECURITY_GROUP_NAME = ''web-sg'',
      EC2_TAG_NAME = ''Server1'',
      EC2_USER_DATA_SCRIPT = ''<script>''\<rparr>"

text \<open>
  Modelled from the spec: the fake client of the end-to-end scenario of section 8, which
  creates group \<open>sg-001\<close> and instance \<open>i-001\<close>; the instance is running when the
  waiter returns and then has the address \<open>203.0.113.5\<close>. The repository has no such
  test double.
\<close>

definition end_to_end :: script where
  "end_to_end =
     \<lparr>on_describe_vpcs = Inr [\<lparr>VpcId = ''vpc-1''\<rparr>],
      on_create_security_group = Inr ''sg-001'',
      on_authorize_security_group_ingress = Inr (),
      on_describe_security_groups = Inr [],
      on_create_instances = Inr [\<lparr>instance_id = ''i-001'', public_ip_address = None\<rparr>],
      on_wait_until_running = Inr (),
      on_reload = Inr (Some ''203.0.113.5''),
      on_monitor_instances = Inr ()\<rparr>"

text \<open>The text of the error that EC2 gives for a name already taken in the network.\<close>

definition duplicate_message :: string where
  "duplicate_message =
     ''An error occurred (InvalidGroup.Duplicate) when calling the CreateSecurityGroup operation''"

text \<open>
  Modelled from the spec: the fake client of the duplicate-group scenario of section 8,
  whose create-group call fails with the duplicate-name error and whose lookup finds
  \<open>sg-existing\<close>.
\<close>

definition duplicate_group :: script where
  "duplicate_group =
     end_to_end
       \<lparr>on_create_security_group := Inl (ClientError duplicate_message),
        on_describe_security_groups :=
          Inr [\<lparr>GroupId = ''sg-existing'', GroupName = ''web-sg'', GroupVpcId = ''vpc-1''\<rparr>]\<rparr>"

text \<open>Variations of the scenario, one answer changed each.\<close>

definition vanished_group :: script where
  "vanished_group = duplicate_group\<lparr>on_describe_security_groups := Inr []\<rparr>"

definition group_rejected :: script where
  "group_rejected =
     end_to_end\<lparr>on_create_security_group :=
       Inl (ClientError ''An error occurred (VpcLimitExceeded) when calling the CreateSecurityGroup operation'')\<rparr>"


definition no_network :: script where
  "no_network = end_to_end\<lparr>on_describe_vpcs := Inr []\<rparr>"

definition instance_rejected :: script where
  "instance_rejected =
     end_to_end\<lparr>on_create_instances :=
       Inl (ClientError ''An error occurred (InvalidAMIID.NotFound) when calling the RunInstances operation'')\<rparr>"

definition two_instances :: script where
  "two_instances =
     end_to_end\<lparr>on_create_instances :=
       Inr [\<lparr>instance_id = ''i-001'', public_ip_address = None\<rparr>,
            \<lparr>instance_id = ''i-002'', public_ip_address = None\<rparr>]\<rparr>"

definition never_running :: script where
  "never_running =
     end_to_end\<lparr>on_wait_until_running :=
       Inl (WaiterError ''Waiter InstanceRunning failed: Max attempts exceeded'')\<rparr>"

definition monitoring_rejected :: script where
  "monitoring_rejected =
     end_to_end\<lparr>on_monitor_instances :=
       Inl (ClientError ''An error occurred (UnauthorizedOperation) when calling the MonitorInstances operation'')\<rparr>"

definition monitoring_unreachable :: script where
  "monitoring_unreachable =
     end_to_end\<lparr>on_monitor_instances :=
       Inl (OtherBotoCoreError ''Could not connect to the endpoint URL'')\<rparr>"

section \<open>A cloud that keeps the groups\<close>

text \<open>
  Modelled from the spec: the cloud's side of the security-group operations, which the
  repository does not implement (section 2 calls the client an external collaborator).
  Section 3 has at most one group of a name in a network; section 4.1 has creation fail
  with the duplicate-name error when the name is taken in the network, and the lookup go
  by name. The lookup of line 86 passes the name and no network, so it lists the groups
  of that name in every network, oldest first. A new group takes the next unused
  identifier; with none left, creation is rejected.
\<close>

record registry =
  existing_groups :: "security_group list"
  unused_ids :: "string list"

definition limit_message :: string where
  "limit_message =
     ''An error occurred (SecurityGroupLimitExceeded) when calling the CreateSecurityGroup operation''"

definition registry_create ::
    "string \<Rightarrow> string \<Rightarrow> string \<Rightarrow> registry \<Rightarrow> (boto_exn + string) \<times> registry" where
  "registry_create name description vpc_id s =
     (if list_ex (\<lambda>g. GroupName g = name \<and> GroupVpcId g = vpc_id) (existing_groups s)
      then (Inl (ClientError duplicate_message), s)
      else case unused_ids s of
             [] \<Rightarrow> (Inl (ClientError limit_message), s)
           | gid # rest \<Rightarrow>
               (Inr gid,
                \<lparr>existing_groups = existing_groups s
                   @ [\<lparr>GroupId = gid, GroupName = name, GroupVpcId = vpc_id\<rparr>],
                 unused_ids = rest\<rparr>))"

definition registry_describe ::
    "string list \<Rightarrow> registry \<Rightarrow> (boto_exn + security_group list) \<times> registry" where
  "registry_describe names s =
     (Inr (filter (\<lambda>g. GroupName g \<in> set names) (existing_groups s)), s)"

definition registry_client :: "registry ec2" where
  "registry_client =
     (scripted end_to_end)
       \<lparr>api_create_security_group := registry_create,
        api_authorize_security_group_ingress := (\<lambda>_ _ s. (Inr (), s)),
        api_describe_security_groups := registry_describe\<rparr>"

text \<open>The resolver called twice in a row: both results, and the cloud in between and after.\<close>

definition resolve_twice ::
    "config \<Rightarrow> 's ec2 \<Rightarrow> string \<Rightarrow> 's \<Rightarrow> (exn + string) \<times> 's \<times> (exn + string) \<times> 's" where
  "resolve_twice cfg ec2 vpc_id s =
     (let first = run (create_security_group cfg ec2 vpc_id) s;
          second = run (create_security_group cfg ec2 vpc_id) (cloud (snd first))
      in (outcome first, cloud (snd first), outcome second, cloud (snd second)))"

text \<open>A cloud where another network already has a group of the scenario's name.\<close>

definition two_networks :: registry where
  "two_networks =
     \<lparr>existing_groups = [\<lparr>GroupId = ''sg-1'', GroupName = ''web-sg'', GroupVpcId = ''vpc-a''\<rparr>],
      unused_ids = [''sg-2'', ''sg-3'']\<rparr>"

definition empty_cloud :: registry where
  "empty_cloud = \<lparr>existing_groups = [], unused_ids = [''sg-1'', ''sg-2'']\<rparr>"

section \<open>Every run follows one of the paths\<close>

lemma andthenE:
  assumes "andthen m f w = (r, w')"
  obtains (raised) e where "m w = (Inl e, w')" "r = Inl e"
        | (continued) x w1 where "m w = (Inr x, w1)" "f x w1 = (r, w')"
  using assms by (auto simp: andthen_def split: prod.splits sum.splits)

lemma except_ClientErrorE:
  assumes "except_ClientError m h w = (r, w')"
  obtains (handled) e w1 where "m w = (Inl (Raised (ClientError e)), w1)" "h e w1 = (r, w')"
        | (passed) "m w = (r, w')" "\<forall>e. r \<noteq> Inl (Raised (ClientError e))"
  using assms
  by (auto simp: except_ClientError_def split: prod.splits sum.splits exn.splits boto_exn.splits)

lemma apiE:
  assumes "api operation ev w = (r, w')"
  obtains (failed) x where "r = Inl (Raised x)" "trace w' = trace w @ [ev (Inl x)]"
        | (answered) y where "r = Inr y" "trace w' = trace w @ [ev (Inr y)]"
  using assms by (auto simp: api_def split: prod.splits sum.splits)

lemma loggingE:
  assumes "logging l msg w = (r, w')"
  obtains "r = Inr ()" "trace w' = trace w @ [Log l msg]"
  using assms by (auto simp: logging_def)

lemma sleepE:
  assumes "sleep n w = (r, w')"
  obtains "r = Inr ()" "trace w' = trace w @ [Sleep n]"
  using assms by (auto simp: sleep_def)

lemma index0E:
  assumes "index0 xs w = (r, w')"
  obtains (empty) "xs = []" "r = Inl IndexError" "w' = w"
        | (first) x xs' where "xs = x # xs'" "r = Inr x" "w' = w"
  using assms by (auto simp: index0_def ret_def raise_def split: list.splits)

lemma retE:
  assumes "ret x w = (r, w')"
  obtains "r = Inr x" "w' = w"
  using assms by (auto simp: ret_def)

lemma raiseE:
  assumes "raise e w = (r, w')"
  obtains "r = Inl e" "w' = w"
  using assms by (auto simp: raise_def)

lemmas progE = andthenE except_ClientErrorE apiE loggingE sleepE index0E retE raiseE

lemma create_security_group_try_run:
  assumes "create_security_group_try cfg ec2 vpc w = (r, w')"
  shows "\<exists>es. trace w' = trace w @ es \<and>
     ((\<exists>g. r = Inr g \<and> es = [csg cfg vpc (Inr g), Log INFO (created_msg cfg g),
        AuthorizeSecurityGroupIngress g ingress_rules (Inr ()),
        Log INFO ''Configured security group ingress rules.''])
     \<or> (\<exists>x. r = Inl (Raised x) \<and> es = [csg cfg vpc (Inl x)])
     \<or> (\<exists>x g. r = Inl (Raised x) \<and> es = [csg cfg vpc (Inr g), Log INFO (created_msg cfg g),
        AuthorizeSecurityGroupIngress g ingress_rules (Inl x)]))"
  using assms unfolding create_security_group_try_def created_msg_def
  by (elim progE) auto

lemma lookup_run_sound:
  assumes "andthen (api (api_describe_security_groups ec2 [EC2_SECURITY_GROUP_NAME cfg])
                      (DescribeSecurityGroups [EC2_SECURITY_GROUP_NAME cfg])) (\<lambda>sgs.
            andthen (index0 sgs) (\<lambda>sg. ret (GroupId sg))) w = (r, w')"
  shows "\<exists>es. trace w' = trace w @ es \<and> lookup_run cfg r es"
  using assms
  by (elim progE) (auto intro: lookup_run.intros)

lemma create_security_group_run:
  assumes "create_security_group cfg ec2 vpc w = (r, w')"
  shows "\<exists>es. trace w' = trace w @ es \<and> resolver_run cfg vpc r es"
  using assms unfolding create_security_group_def
proof (cases rule: except_ClientErrorE)
  case (handled e w1)
  from create_security_group_try_run[OF handled(1)] obtain es1 where
    es1: "trace w1 = trace w @ es1"
     "es1 = [csg cfg vpc (Inl (ClientError e))] \<or> (\<exists>g. es1 = [csg cfg vpc (Inr g), Log INFO (created_msg cfg g),
        AuthorizeSecurityGroupIngress g ingress_rules (Inl (ClientError e))])"
    by auto
  show ?thesis
  proof (cases "is_duplicate e")
    case True
    with handled(2) obtain es2 where es2: "trace w' = trace w1 @ es2" "lookup_run cfg r es2"
      using lookup_run_sound by fastforce
    from es1(2) show ?thesis
    proof
      assume "es1 = [csg cfg vpc (Inl (ClientError e))]"
      with es1(1) es2 resolver_run.create_duplicate[OF True es2(2), of vpc] show ?thesis
        by simp
    next
      assume "\<exists>g. es1 = [csg cfg vpc (Inr g), Log INFO (created_msg cfg g),
        AuthorizeSecurityGroupIngress g ingress_rules (Inl (ClientError e))]"
      then obtain g where "es1 = [csg cfg vpc (Inr g), Log INFO (created_msg cfg g),
        AuthorizeSecurityGroupIngress g ingress_rules (Inl (ClientError e))]" by blast
      with es1(1) es2 resolver_run.authorize_duplicate[OF True es2(2), of vpc g] show ?thesis
        by simp
    qed
  next
    case False
    with handled(2) have "r = Inl (SystemExit 1)" "trace w' = trace w1 @ [Log ERROR (''Error creating security group: '' @ e)]"
      by (auto elim!: progE)
    with es1 False show ?thesis
      by (auto intro: resolver_run.intros[simplified])
  qed
next
  case passed
  from create_security_group_try_run[OF passed(1)] passed(2) show ?thesis
    by (auto intro: resolver_run.intros[simplified])
qed

lemma launch_try_run:
  assumes "launch_try cfg ec2 g w = (r, w')"
  shows "\<exists>es. trace w' = trace w @ es \<and>
     ((\<exists>inst insts ip. r = Inr (inst\<lparr>public_ip_address := ip\<rparr>) \<and> es =
       [CreateInstances (instance_request cfg g) (Inr (inst # insts)), launching_msg inst,
        WaitUntilRunning (instance_id inst) (Inr ()),
        Reload (instance_id inst) (Inr ip),
        Log INFO (''EC2 instance is running at '' @ str_opt ip)])
     \<or> (\<exists>x. r = Inl (Raised x) \<and> es = [CreateInstances (instance_request cfg g) (Inl x)])
     \<or> (r = Inl IndexError \<and> es = [CreateInstances (instance_request cfg g) (Inr [])])
     \<or> (\<exists>x inst insts. r = Inl (Raised x) \<and> es =
       [CreateInstances (instance_request cfg g) (Inr (inst # insts)), launching_msg inst,
        WaitUntilRunning (instance_id inst) (Inl x)])
     \<or> (\<exists>x inst insts. r = Inl (Raised x) \<and> es =
       [CreateInstances (instance_request cfg g) (Inr (inst # insts)), launching_msg inst,
        WaitUntilRunning (instance_id inst) (Inr ()),
        Reload (instance_id inst) (Inl x)]))"
  using assms unfolding launch_try_def
  by (elim progE) auto

lemma provision_run_sound:
  assumes "except_ClientError (launch_try cfg ec2 g) (\<lambda>e.
        andthen (logging ERROR (''Error launching EC2 instance: '' @ e)) (\<lambda>_.
        raise (SystemExit 1))) w = (r, w')"
  shows "\<exists>es. trace w' = trace w @ es \<and> provision_run cfg g r es"
  using assms
proof (cases rule: except_ClientErrorE)
  case (handled e w1)
  from handled(2) have *: "r = Inl (SystemExit 1)"
    "trace w' = trace w1 @ [launch_error e]"
    by (auto elim!: progE)
  from launch_try_run[OF handled(1)] * show ?thesis
    by (auto intro: provision_run.intros[simplified])
next
  case passed
  from launch_try_run[OF passed(1)] passed(2) show ?thesis
    by (auto intro: provision_run.intros[simplified])
qed

lemma launch_ec2_instance_run:
  assumes "launch_ec2_instance cfg boto3 w = (r, w')"
  shows "\<exists>es. trace w' = trace w @ es \<and> launch_run cfg r es"
  using assms unfolding launch_ec2_instance_def Let_def
proof (cases rule: andthenE)
  case (raised e)
  then show ?thesis by (auto elim!: apiE intro: launch_run.intros)
next
  case (continued vpcs w1)
  from continued(1) have t1: "trace w1 = trace w @ [DescribeVpcs (Inr vpcs)]"
    by (auto elim!: apiE)
  from continued(2) show ?thesis
  proof (cases rule: andthenE)
    case (raised e)
    with t1 show ?thesis by (auto elim!: index0E intro: launch_run.intros)
  next
    case (continued v w2)
    from continued(1) obtain vs where v: "vpcs = v # vs" "w2 = w1"
      by (auto elim!: index0E)
    from continued(2) show ?thesis
    proof (cases rule: andthenE)
      case (raised e)
      from create_security_group_run[OF raised(1)] obtain es where
        "trace w' = trace w2 @ es" "resolver_run cfg (VpcId v) (Inl e) es" by blast
      with t1 v raised(2) launch_run.group_failed[of cfg v e es vs] show ?thesis by simp
    next
      case (continued g w3)
      from create_security_group_run[OF continued(1)] obtain es where
        es: "trace w3 = trace w2 @ es" "resolver_run cfg (VpcId v) (Inr g) es" by blast
      from provision_run_sound[OF continued(2)] obtain es' where
        es': "trace w' = trace w3 @ es'" "provision_run cfg g r es'" by blast
      from t1 v es es' launch_run.group_resolved[OF es(2) es'(2), of vs] show ?thesis by simp
    qed
  qed
qed

lemma setup_monitoring_run:
  assumes "setup_monitoring cfg boto3 iid w = (r, w')"
  shows "\<exists>es. trace w' = trace w @ es \<and> monitoring_run iid r es"
  using assms unfolding setup_monitoring_def Let_def
  by (elim progE) (auto intro: monitoring_run.intros[simplified])

lemma main_run_sound:
  assumes "main cfg boto3 w = (r, w')"
  shows "\<exists>es. trace w' = trace w @ es \<and> main_run cfg r es"
  using assms unfolding main_def
proof (cases rule: andthenE)
  case (raised e)
  then show ?thesis by (auto elim!: loggingE)
next
  case (continued u w0)
  from continued(1) have t0: "trace w0 = trace w @ [starting]"
    by (auto elim!: loggingE)
  from continued(2) show ?thesis
  proof (cases rule: andthenE)
    case (raised e)
    from launch_ec2_instance_run[OF raised(1)] obtain es where
      "trace w' = trace w0 @ es" "launch_run cfg (Inl e) es" by blast
    with t0 raised(2) main_run.launch_failed[of cfg e es] show ?thesis by simp
  next
    case (continued inst w1)
    from launch_ec2_instance_run[OF continued(1)] obtain es where
      es: "trace w1 = trace w0 @ es" "launch_run cfg (Inr inst) es" by blast
    from continued(2) show ?thesis
    proof (cases rule: andthenE)
      case (raised e)
      from setup_monitoring_run[OF raised(1)] obtain es' where
        es': "trace w' = trace w1 @ es'" "monitoring_run (instance_id inst) (Inl e) es'" by blast
      from t0 es es' raised(2) main_run.monitoring_failed[OF es(2) es'(2)] show ?thesis by simp
    next
      case (continued u' w2)
      from setup_monitoring_run[OF continued(1)] obtain es' where
        es': "trace w2 = trace w1 @ es'" "monitoring_run (instance_id inst) (Inr u') es'" by blast
      from continued(2) have "r = Inr ()"
        "trace w' = trace w2 @ [Log INFO ''Waiting for web server to start...'', Sleep 60]
          @ report_lines (public_ip_address inst)"
        unfolding report_lines_def by (elim progE; simp)+
      with t0 es es' main_run.completed[OF es(2), of es'] show ?thesis by simp
    qed
  qed
qed


section \<open>Runs from a state of the cloud\<close>

lemma run_main:
  "main_run cfg (outcome (run (main cfg boto3) s)) (events (run (main cfg boto3) s))"
  using main_run_sound[of cfg boto3 "\<lparr>cloud = s, trace = []\<rparr>"]
  by (cases "main cfg boto3 \<lparr>cloud = s, trace = []\<rparr>") (auto simp: run_def outcome_def events_def)


section \<open>Instance creation\<close>

lemma resolver_no_create_instances:
  "resolver_run cfg vpc r es \<Longrightarrow> filter is_create_instances es = []"
  by (induction rule: resolver_run.induct) (auto elim!: lookup_run.cases)

lemma provision_create_instances:
  "provision_run cfg g r es \<Longrightarrow>
     \<exists>resp. filter is_create_instances es = [CreateInstances (instance_request cfg g) resp]
       \<and> (\<forall>inst. r = Inr inst \<longrightarrow>
             (\<exists>i insts. resp = Inr (i # insts) \<and> launching_msg i \<in> set es
                \<and> WaitUntilRunning (instance_id i) (Inr ()) \<in> set es))"
  by (induction rule: provision_run.induct) auto

lemma monitoring_no_create_instances:
  "monitoring_run iid r es \<Longrightarrow> filter is_create_instances es = []"
  by (induction rule: monitoring_run.induct) auto

lemma launch_create_instances:
  "launch_run cfg r es \<Longrightarrow>
     (filter is_create_instances es = [] \<and> (\<forall>inst. r \<noteq> Inr inst))
     \<or> (\<exists>g resp. filter is_create_instances es = [CreateInstances (instance_request cfg g) resp]
           \<and> (\<forall>inst. r = Inr inst \<longrightarrow>
                 (\<exists>i insts. resp = Inr (i # insts) \<and> launching_msg i \<in> set es
                    \<and> WaitUntilRunning (instance_id i) (Inr ()) \<in> set es)))"
proof (induction rule: launch_run.induct)
  case (group_failed v e es vs)
  then show ?case by (simp add: resolver_no_create_instances)
next
  case (group_resolved v g es r es' vs)
  from provision_create_instances[OF group_resolved(2)] resolver_no_create_instances[OF group_resolved(1)]
  show ?case by auto
qed auto

lemma main_create_instances:
  "main_run cfg r es \<Longrightarrow>
     (filter is_create_instances es = [] \<and> r \<noteq> Inr ())
     \<or> (\<exists>g resp. filter is_create_instances es = [CreateInstances (instance_request cfg g) resp]
           \<and> (r = Inr () \<longrightarrow>
                 (\<exists>i insts. resp = Inr (i # insts) \<and> launching_msg i \<in> set es
                    \<and> WaitUntilRunning (instance_id i) (Inr ()) \<in> set es)))"
proof (induction rule: main_run.induct)
  case (launch_failed e es)
  from launch_create_instances[OF this] show ?case by auto
next
  case (monitoring_failed inst es e es')
  from launch_create_instances[OF monitoring_failed(1)]
    monitoring_no_create_instances[OF monitoring_failed(2)]
  show ?case by auto
next
  case (completed inst es es')
  from launch_create_instances[OF completed(1)]
    monitoring_no_create_instances[OF completed(2)]
  show ?case by (auto simp: report_lines_def)
qed

lemma mem_filter_create_instances:
  "CreateInstances req resp \<in> set es \<longleftrightarrow>
     CreateInstances req resp \<in> set (filter is_create_instances es)"
  by simp

text \<open>
  Claim C2, amended. Every instance-creation request of a run asks for exactly one instance
  (\<open>MinCount = 1\<close> and \<open>MaxCount = 1\<close>) tagged \<open>Name\<close> with the configured
  name. A run that succeeds has sent exactly one such request; the request was answered
  with at least one instance, and the run has gone on with the first instance listed: it
  logged the launch of that instance and waited for it.
\<close>

theorem exactly_one_instance:
  "(\<forall>req resp. CreateInstances req resp \<in> set (events (run (main cfg boto3) s)) \<longrightarrow>
      MinCount req = 1 \<and> MaxCount req = 1 \<and>
      TagSpecifications req =
        [\<lparr>ResourceType = ''instance'', Tags = [(''Name'', EC2_TAG_NAME cfg)]\<rparr>])
   \<and> (outcome (run (main cfg boto3) s) = Inr () \<longrightarrow>
        length (filter is_create_instances (events (run (main cfg boto3) s))) = 1
        \<and> (\<exists>g i insts.
              filter is_create_instances (events (run (main cfg boto3) s))
                = [CreateInstances (instance_request cfg g) (Inr (i # insts))]
              \<and> Log INFO (''Launching EC2 instance '' @ instance_id i @ ''...'')
                   \<in> set (events (run (main cfg boto3) s))
              \<and> WaitUntilRunning (instance_id i) (Inr ())
                   \<in> set (events (run (main cfg boto3) s))))"
proof -
  let ?r = "outcome (run (main cfg boto3) s)" and ?es = "events (run (main cfg boto3) s)"
  from main_create_instances[OF run_main, of cfg boto3 s]
  consider (none) "filter is_create_instances ?es = []" "?r \<noteq> Inr ()"
    | (one) g resp where
        "filter is_create_instances ?es = [CreateInstances (instance_request cfg g) resp]"
        "?r = Inr () \<longrightarrow>
           (\<exists>i insts. resp = Inr (i # insts) \<and> launching_msg i \<in> set ?es
              \<and> WaitUntilRunning (instance_id i) (Inr ()) \<in> set ?es)"
    by blast
  then show ?thesis
  proof cases
    case none
    then show ?thesis
      by (simp add: mem_filter_create_instances[of _ _ ?es])
  next
    case one
    have requests: "MinCount req = 1 \<and> MaxCount req = 1 \<and>
        TagSpecifications req =
          [\<lparr>ResourceType = ''instance'', Tags = [(''Name'', EC2_TAG_NAME cfg)]\<rparr>]"
      if "CreateInstances req resp' \<in> set ?es" for req resp'
    proof -
      from that have "CreateInstances req resp' \<in> set (filter is_create_instances ?es)"
        by simp
      with one(1) show ?thesis by (simp add: instance_request_def)
    qed
    have "\<exists>g i insts.
              filter is_create_instances ?es
                = [CreateInstances (instance_request cfg g) (Inr (i # insts))]
              \<and> Log INFO (''Launching EC2 instance '' @ instance_id i @ ''...'') \<in> set ?es
              \<and> WaitUntilRunning (instance_id i) (Inr ()) \<in> set ?es"
      if "?r = Inr ()"
      using one that by blast
    with one(1) requests show ?thesis by simp
  qed
qed

lemmas scenario_defs = run_def outcome_def events_def main_def launch_ec2_instance_def launch_try_def
  setup_monitoring_def create_security_group_def create_security_group_try_def
  andthen_def ret_def raise_def except_ClientError_def api_def logging_def sleep_def index0_def
  scripted_def scenario_config_def instance_request_def str_opt_def

lemma end_to_end_outcome:
  "outcome (run (main scenario_config (\<lambda>_. scripted end_to_end)) ()) = Inr ()"
  by (simp add: scenario_defs end_to_end_def)

lemma end_to_end_events:
  "events (run (main scenario_config (\<lambda>_. scripted end_to_end)) ()) =
     [Log INFO ''Starting Langraph website deployment on AWS EC2...'',
      DescribeVpcs (Inr [\<lparr>VpcId = ''vpc-1''\<rparr>]),
      CreateSecurityGroup ''web-sg'' ''Security group for Langraph web server'' ''vpc-1''
        (Inr ''sg-001''),
      Log INFO ''Created security group web-sg with ID sg-001'',
      AuthorizeSecurityGroupIngress ''sg-001'' ingress_rules (Inr ()),
      Log INFO ''Configured security group ingress rules.'',
      CreateInstances (instance_request scenario_config ''sg-001'')
        (Inr [\<lparr>instance_id = ''i-001'', public_ip_address = None\<rparr>]),
      Log INFO ''Launching EC2 instance i-001...'',
      WaitUntilRunning ''i-001'' (Inr ()),
      Reload ''i-001'' (Inr (Some ''203.0.113.5'')),
      Log INFO ''EC2 instance is running at 203.0.113.5'',
      MonitorInstances [''i-001''] (Inr ()),
      Log INFO ''Enabled detailed monitoring for instance i-001'',
      Log INFO ''Waiting for web server to start...'',
      Sleep 60,
      Log INFO ''Website should be available at: http://203.0.113.5/'',
      Log INFO ''AI-powered features available at: http://203.0.113.5/ai (POST JSON: {'text': 'your input'})'',
      Log INFO ''Deployment complete. Monitor instance in AWS Console for resource usage and uptime.'']"
  by (simp add: scenario_defs end_to_end_def)

theorem exactly_one_instance_witness:
  "CreateInstances (instance_request scenario_config ''sg-001'')
       (Inr [\<lparr>instance_id = ''i-001'', public_ip_address = None\<rparr>])
     \<in> set (events (run (main scenario_config (\<lambda>_. scripted end_to_end)) ()))
   \<and> MinCount (instance_request scenario_config ''sg-001'') = 1
   \<and> MaxCount (instance_request scenario_config ''sg-001'') = 1
   \<and> TagSpecifications (instance_request scenario_config ''sg-001'') =
        [\<lparr>ResourceType = ''instance'', Tags = [(''Name'', ''Server1'')]\<rparr>]
   \<and> outcome (run (main scenario_config (\<lambda>_. scripted end_to_end)) ()) = Inr ()
   \<and> length (filter is_create_instances
        (events (run (main scenario_config (\<lambda>_. scripted end_to_end)) ()))) = 1
   \<and> filter is_create_instances
        (events (run (main scenario_config (\<lambda>_. scripted end_to_end)) ()))
      = [CreateInstances (instance_request scenario_config ''sg-001'')
           (Inr [\<lparr>instance_id = ''i-001'', public_ip_address = None\<rparr>])]"
  using exactly_one_instance[of scenario_config "\<lambda>_. scripted end_to_end" "()",
      unfolded end_to_end_outcome end_to_end_events]
  unfolding end_to_end_outcome end_to_end_events
  by (simp add: instance_request_def scenario_config_def)

lemma two_instances_run:
  "run (main scenario_config (\<lambda>_. scripted two_instances)) () =
     (Inr (),
      \<lparr>cloud = (),
       trace =
        [Log INFO ''Starting Langraph website deployment on AWS EC2...'',
         DescribeVpcs (Inr [\<lparr>VpcId = ''vpc-1''\<rparr>]),
         CreateSecurityGroup ''web-sg'' ''Security group for Langraph web server'' ''vpc-1''
           (Inr ''sg-001''),
         Log INFO ''Created security group web-sg with ID sg-001'',
         AuthorizeSecurityGroupIngress ''sg-001'' ingress_rules (Inr ()),
         Log INFO ''Configured security group ingress rules.'',
         CreateInstances (instance_request scenario_config ''sg-001'')
           (Inr [\<lparr>instance_id = ''i-001'', public_ip_address = None\<rparr>,
                 \<lparr>instance_id = ''i-002'', public_ip_address = None\<rparr>]),
         Log INFO ''Launching EC2 instance i-001...'',
         WaitUntilRunning ''i-001'' (Inr ()),
         Reload ''i-001'' (Inr (Some ''203.0.113.5'')),
         Log INFO ''EC2 instance is running at 203.0.113.5'',
         MonitorInstances [''i-001''] (Inr ()),
         Log INFO ''Enabled detailed monitoring for instance i-001'',
         Log INFO ''Waiting for web server to start...'',
         Sleep 60,
         Log INFO ''Website should be available at: http://203.0.113.5/'',
         Log INFO ''AI-powered features available at: http://203.0.113.5/ai (POST JSON: {'text': 'your input'})'',
         Log INFO ''Deployment complete. Monitor instance in AWS Console for resource usage and uptime.'']\<rparr>)"
  by (simp add: scenario_defs end_to_end_def two_instances_def)

text \<open>
  The claim as first stated has a successful run create exactly one instance resource.
  The script takes \<open>instances[0]\<close> and does not look at the rest of the answer: when the
  answer to its one request lists two instances, the run succeeds all the same and two
  instance resources have been created.
\<close>

theorem two_instances_for_one_request:
  "outcome (run (main scenario_config (\<lambda>_. scripted two_instances)) ()) = Inr ()
   \<and> filter is_create_instances
        (events (run (main scenario_config (\<lambda>_. scripted two_instances)) ()))
      = [CreateInstances (instance_request scenario_config ''sg-001'')
           (Inr [\<lparr>instance_id = ''i-001'', public_ip_address = None\<rparr>,
                 \<lparr>instance_id = ''i-002'', public_ip_address = None\<rparr>])]
   \<and> MinCount (instance_request scenario_config ''sg-001'') = 1
   \<and> MaxCount (instance_request scenario_config ''sg-001'') = 1
   \<and> instances_created (events (run (main scenario_config (\<lambda>_. scripted two_instances)) ())) = 2"
  by (simp add: two_instances_run events_def outcome_def instances_created_def
      instance_request_def)

section \<open>The resolver\<close>

lemma is_duplicate_duplicate_message [simp]: "is_duplicate duplicate_message"
  by code_simp

lemma lookup_events:
  "lookup_run cfg r es \<Longrightarrow>
     \<exists>resp. es = [DescribeSecurityGroups [EC2_SECURITY_GROUP_NAME cfg] resp]
       \<and> (\<forall>sg sgs. resp = Inr (sg # sgs) \<longrightarrow> r = Inr (GroupId sg))
       \<and> (\<forall>n. r \<noteq> Inl (SystemExit n))"
  by (induction rule: lookup_run.induct) auto

















section \<open>The order of the steps\<close>

lemma map_filter_append: "List.map_filter f (xs @ ys) = List.map_filter f xs @ List.map_filter f ys"
  by (simp add: List.map_filter_def)

lemma lookup_steps:
  "lookup_run cfg r es \<Longrightarrow> List.map_filter step_of es = [ResolveGroup]"
  by (induction rule: lookup_run.induct) (simp_all add: List.map_filter_simps)

lemma resolver_steps:
  "resolver_run cfg vpc r es \<Longrightarrow>
     remdups_adj (p # List.map_filter step_of es @ ys) = remdups_adj (p # ResolveGroup # ys)"
  by (induction rule: resolver_run.induct)
     (auto simp: List.map_filter_simps map_filter_append is_report_def created_msg_def
           dest!: lookup_steps)

lemma provision_steps:
  "provision_run cfg g r es \<Longrightarrow>
     remdups_adj (p # List.map_filter step_of es @ ys) = remdups_adj (p # LaunchInstance # ys)"
  by (induction rule: provision_run.induct)
     (auto simp: List.map_filter_simps is_report_def)

lemma monitoring_steps:
  "monitoring_run iid r es \<Longrightarrow>
     remdups_adj (p # List.map_filter step_of es @ ys) = remdups_adj (p # AttemptMonitoring # ys)"
  by (induction rule: monitoring_run.induct)
     (auto simp: List.map_filter_simps is_report_def)

lemma launch_steps:
  "launch_run cfg r es \<Longrightarrow>
     (case r of
        Inr inst \<Rightarrow> remdups_adj (List.map_filter step_of es @ ys)
                      = remdups_adj (ResolveGroup # LaunchInstance # ys)
      | Inl e \<Rightarrow> steps es = [ResolveGroup] \<or> steps es = [ResolveGroup, LaunchInstance])"
proof (induction rule: launch_run.induct)
  case (group_failed v e es vs)
  from resolver_steps[OF this, of ResolveGroup "[]"] show ?case
    by (simp add: steps_def List.map_filter_simps)
next
  case (group_resolved v g es r es' vs)
  have "remdups_adj (List.map_filter step_of (DescribeVpcs (Inr (v # vs)) # es @ es') @ zs)
          = remdups_adj (ResolveGroup # LaunchInstance # zs)" for zs
    using resolver_steps[OF group_resolved(1), of ResolveGroup "List.map_filter step_of es' @ zs"]
      provision_steps[OF group_resolved(2), of ResolveGroup zs]
    by (simp add: List.map_filter_simps map_filter_append)
  from this[of ys] this[of "[]"] show ?case
    by (auto simp: steps_def split: sum.splits)
qed (simp_all add: steps_def List.map_filter_simps)

lemma report_lines_steps:
  "List.map_filter step_of (report_lines ip) = [Report, Report, Report]"
  by (simp add: report_lines_def List.map_filter_simps is_report_def)

lemma main_steps:
  "main_run cfg r es \<Longrightarrow>
     (case r of
        Inr u \<Rightarrow> steps es = [ResolveGroup, LaunchInstance, AttemptMonitoring, Settle, Report]
      | Inl e \<Rightarrow> steps es = [ResolveGroup] \<or> steps es = [ResolveGroup, LaunchInstance]
                 \<or> steps es = [ResolveGroup, LaunchInstance, AttemptMonitoring])"
proof (induction rule: main_run.induct)
  case (launch_failed e es)
  from launch_steps[OF this, of "[]"] show ?case
    by (auto simp: steps_def List.map_filter_simps is_report_def)
next
  case (monitoring_failed inst es e es')
  from launch_steps[OF monitoring_failed(1), of "List.map_filter step_of es'"]
    monitoring_steps[OF monitoring_failed(2), of LaunchInstance "[]"]
  show ?case
    by (simp add: steps_def List.map_filter_simps is_report_def map_filter_append)
next
  case (completed inst es es')
  from launch_steps[OF completed(1), of "List.map_filter step_of es' @ [Settle, Report, Report, Report]"]
    monitoring_steps[OF completed(2), of LaunchInstance "[Settle, Report, Report, Report]"]
  show ?case
    by (simp add: steps_def List.map_filter_simps is_report_def map_filter_append
        report_lines_steps)
qed


section \<open>Where a run can end\<close>

lemma main_run_paths [consumes 1, case_names no_answer no_network group_failed launch_failed
    monitoring_failed completed]:
  assumes "main_run cfg r es"
  obtains x where "r = Inl (Raised x)" "es = [starting, DescribeVpcs (Inl x)]"
  | "r = Inl IndexError" "es = [starting, DescribeVpcs (Inr [])]"
  | v vs e res where "r = Inl e" "es = starting # DescribeVpcs (Inr (v # vs)) # res"
      "resolver_run cfg (VpcId v) (Inl e) res"
  | v vs g res e prov where "r = Inl e"
      "es = starting # DescribeVpcs (Inr (v # vs)) # res @ prov"
      "resolver_run cfg (VpcId v) (Inr g) res" "provision_run cfg g (Inl e) prov"
  | v vs g res inst prov e mon where "r = Inl e"
      "es = starting # DescribeVpcs (Inr (v # vs)) # res @ prov @ mon"
      "resolver_run cfg (VpcId v) (Inr g) res" "provision_run cfg g (Inr inst) prov"
      "monitoring_run (instance_id inst) (Inl e) mon"
  | v vs g res inst prov mon where "r = Inr ()"
      "es = starting # DescribeVpcs (Inr (v # vs)) # res @ prov @ mon
         @ [Log INFO ''Waiting for web server to start...'', Sleep 60]
         @ report_lines (public_ip_address inst)"
      "resolver_run cfg (VpcId v) (Inr g) res" "provision_run cfg g (Inr inst) prov"
      "monitoring_run (instance_id inst) (Inr ()) mon"
  using assms
proof (cases rule: main_run.cases)
  case (launch_failed e es')
  from launch_failed(3) show ?thesis
    by (cases rule: launch_run.cases) (use launch_failed that in auto)
next
  case (monitoring_failed inst es' e es'')
  from monitoring_failed(3) show ?thesis
    by (cases rule: launch_run.cases) (use monitoring_failed that in auto)
next
  case (completed inst es' es'')
  from completed(3) show ?thesis
    by (cases rule: launch_run.cases) (use completed that in auto)
qed

lemma resolver_kind:
  "resolver_run cfg vpc r es \<Longrightarrow> ev \<in> set es \<Longrightarrow>
     step_of ev = Some ResolveGroup \<or> (is_log ev \<and> step_of ev = None)"
  by (induction rule: resolver_run.induct)
     (auto simp: is_report_def created_msg_def dest!: lookup_events)

lemma provision_kind:
  "provision_run cfg g r es \<Longrightarrow> ev \<in> set es \<Longrightarrow>
     step_of ev = Some LaunchInstance \<or> (is_log ev \<and> step_of ev = None)"
  by (induction rule: provision_run.induct) (auto simp: is_report_def)

lemma monitoring_kind:
  "monitoring_run iid r es \<Longrightarrow> ev \<in> set es \<Longrightarrow>
     step_of ev = Some AttemptMonitoring \<or> (is_log ev \<and> step_of ev = None)"
  by (induction rule: monitoring_run.induct) (auto simp: is_report_def)

lemma resolver_ok_no_error_log:
  "resolver_run cfg vpc (Inr g) es \<Longrightarrow> filter is_error_log es = []"
  by (cases rule: resolver_run.cases) (auto dest!: lookup_events)

lemma provision_timeout:
  "provision_run cfg g r es \<Longrightarrow> WaitUntilRunning iid (Inl (WaiterError m)) \<in> set es \<Longrightarrow>
     r = Inl (Raised (WaiterError m)) \<and> filter is_error_log es = []
     \<and> last es = WaitUntilRunning iid (Inl (WaiterError m))"
  by (induction rule: provision_run.induct) auto

lemma provision_rejected:
  "provision_run cfg g r es \<Longrightarrow> CreateInstances req (Inl (ClientError e)) \<in> set es \<Longrightarrow>
     r = Inl (SystemExit 1) \<and> last es = Log ERROR (''Error launching EC2 instance: '' @ e)"
  by (induction rule: provision_run.induct) auto

lemma steps_launch_failed:
  assumes "resolver_run cfg vpc rg res" "provision_run cfg g r prov"
  shows "steps (starting # DescribeVpcs a # res @ prov) = [ResolveGroup, LaunchInstance]"
  using resolver_steps[OF assms(1), of ResolveGroup "List.map_filter step_of prov"]
    provision_steps[OF assms(2), of ResolveGroup "[]"]
  by (simp add: steps_def List.map_filter_simps map_filter_append is_report_def)

text \<open>
  Claim C7. The waiter of \<open>wait_until_running\<close> gives up with \<open>WaiterError\<close>,
  which \<open>except ClientError\<close> does not catch. In a run where that happens the
  exception ends the run: it is the outcome, the exit status is \<open>1\<close>, the waiter's
  call is the last thing recorded, no error is logged, and the run has gone through group
  resolution and instance launch only (no monitoring, no settle wait, no report). A
  rejected instance creation ends differently: with \<open>SystemExit(1)\<close> after the error
  record \<open>Error launching EC2 instance\<close>.
\<close>

theorem timeout_is_fatal_and_distinct:
  "(WaitUntilRunning iid (Inl (WaiterError m)) \<in> set (events (run (main cfg boto3) s)) \<longrightarrow>
      outcome (run (main cfg boto3) s) = Inl (Raised (WaiterError m))
      \<and> exit_status (outcome (run (main cfg boto3) s)) = 1
      \<and> last (events (run (main cfg boto3) s)) = WaitUntilRunning iid (Inl (WaiterError m))
      \<and> filter is_error_log (events (run (main cfg boto3) s)) = []
      \<and> steps (events (run (main cfg boto3) s)) = [ResolveGroup, LaunchInstance])
   \<and> (CreateInstances req (Inl (ClientError e)) \<in> set (events (run (main cfg boto3) s)) \<longrightarrow>
      outcome (run (main cfg boto3) s) = Inl (SystemExit 1)
      \<and> last (events (run (main cfg boto3) s)) = Log ERROR (''Error launching EC2 instance: '' @ e))"
  using run_main[of cfg boto3 s]
proof (cases rule: main_run_paths)
  case (group_failed v vs e res)
  then show ?thesis by (auto dest: resolver_kind)
next
  case (launch_failed v vs g res e prov)
  from launch_failed(4) have "prov \<noteq> []" by (cases rule: provision_run.cases) auto
  with launch_failed show ?thesis
    using steps_launch_failed[OF launch_failed(3,4)] resolver_ok_no_error_log[OF launch_failed(3)]
    by (auto simp: exit_status_def dest: resolver_kind provision_timeout provision_rejected)
next
  case (monitoring_failed v vs g res inst prov e mon)
  then show ?thesis
    by (auto dest: resolver_kind monitoring_kind provision_timeout provision_rejected)
next
  case (completed v vs g res inst prov mon)
  then show ?thesis
    by (auto simp: report_lines_def
        dest: resolver_kind monitoring_kind provision_timeout provision_rejected)
qed auto

lemma never_running_run:
  "run (main scenario_config (\<lambda>_. scripted never_running)) () =
     (Inl (Raised (WaiterError ''Waiter InstanceRunning failed: Max attempts exceeded'')),
      \<lparr>cloud = (),
       trace =
        [Log INFO ''Starting Langraph website deployment on AWS EC2...'',
         DescribeVpcs (Inr [\<lparr>VpcId = ''vpc-1''\<rparr>]),
         CreateSecurityGroup ''web-sg'' ''Security group for Langraph web server'' ''vpc-1''
           (Inr ''sg-001''),
         Log INFO ''Created security group web-sg with ID sg-001'',
         AuthorizeSecurityGroupIngress ''sg-001'' ingress_rules (Inr ()),
         Log INFO ''Configured security group ingress rules.'',
         CreateInstances (instance_request scenario_config ''sg-001'')
           (Inr [\<lparr>instance_id = ''i-001'', public_ip_address = None\<rparr>]),
         Log INFO ''Launching EC2 instance i-001...'',
         WaitUntilRunning ''i-001''
           (Inl (WaiterError ''Waiter InstanceRunning failed: Max attempts exceeded''))]\<rparr>)"
  by (simp add: scenario_defs end_to_end_def never_running_def)

lemma instance_rejected_run:
  "run (main scenario_config (\<lambda>_. scripted instance_rejected)) () =
     (Inl (SystemExit 1),
      \<lparr>cloud = (),
       trace =
        [Log INFO ''Starting Langraph website deployment on AWS EC2...'',
         DescribeVpcs (Inr [\<lparr>VpcId = ''vpc-1''\<rparr>]),
         CreateSecurityGroup ''web-sg'' ''Security group for Langraph web server'' ''vpc-1''
           (Inr ''sg-001''),
         Log INFO ''Created security group web-sg with ID sg-001'',
         AuthorizeSecurityGroupIngress ''sg-001'' ingress_rules (Inr ()),
         Log INFO ''Configured security group ingress rules.'',
         CreateInstances (instance_request scenario_config ''sg-001'')
           (Inl (ClientError ''An error occurred (InvalidAMIID.NotFound) when calling the RunInstances operation'')),
         Log ERROR ''Error launching EC2 instance: An error occurred (InvalidAMIID.NotFound) when calling the RunInstances operation'']\<rparr>)"
  by (simp add: scenario_defs end_to_end_def instance_rejected_def)

theorem timeout_is_fatal_and_distinct_witness:
  "WaitUntilRunning ''i-001'' (Inl (WaiterError ''Waiter InstanceRunning failed: Max attempts exceeded''))
     \<in> set (events (run (main scenario_config (\<lambda>_. scripted never_running)) ()))
   \<and> outcome (run (main scenario_config (\<lambda>_. scripted never_running)) ())
      = Inl (Raised (WaiterError ''Waiter InstanceRunning failed: Max attempts exceeded''))
   \<and> exit_status (outcome (run (main scenario_config (\<lambda>_. scripted never_running)) ())) = 1
   \<and> steps (events (run (main scenario_config (\<lambda>_. scripted never_running)) ()))
      = [ResolveGroup, LaunchInstance]
   \<and> filter is_error_log (events (run (main scenario_config (\<lambda>_. scripted never_running)) ())) = []
   \<and> CreateInstances (instance_request scenario_config ''sg-001'')
        (Inl (ClientError ''An error occurred (InvalidAMIID.NotFound) when calling the RunInstances operation''))
     \<in> set (events (run (main scenario_config (\<lambda>_. scripted instance_rejected)) ()))
   \<and> outcome (run (main scenario_config (\<lambda>_. scripted instance_rejected)) ()) = Inl (SystemExit 1)
   \<and> last (events (run (main scenario_config (\<lambda>_. scripted instance_rejected)) ()))
      = Log ERROR ''Error launching EC2 instance: An error occurred (InvalidAMIID.NotFound) when calling the RunInstances operation''"
  using timeout_is_fatal_and_distinct[of "''i-001''"
      "''Waiter InstanceRunning failed: Max attempts exceeded''"
      scenario_config "\<lambda>_. scripted never_running" "()"]
    timeout_is_fatal_and_distinct[of _ _ scenario_config "\<lambda>_. scripted instance_rejected" "()"
      "instance_request scenario_config ''sg-001''"
      "''An error occurred (InvalidAMIID.NotFound) when calling the RunInstances operation''"]
  by (simp add: never_running_run instance_rejected_run events_def outcome_def)


section \<open>A rejected group\<close>







lemma not_duplicate_limit:
  "\<not> is_duplicate ''An error occurred (VpcLimitExceeded) when calling the CreateSecurityGroup operation''"
  by code_simp

lemma group_rejected_run:
  "run (main scenario_config (\<lambda>_. scripted group_rejected)) () =
     (Inl (SystemExit 1),
      \<lparr>cloud = (),
       trace =
        [Log INFO ''Starting Langraph website deployment on AWS EC2...'',
         DescribeVpcs (Inr [\<lparr>VpcId = ''vpc-1''\<rparr>]),
         CreateSecurityGroup ''web-sg'' ''Security group for Langraph web server'' ''vpc-1''
           (Inl (ClientError ''An error occurred (VpcLimitExceeded) when calling the CreateSecurityGroup operation'')),
         Log ERROR ''Error creating security group: An error occurred (VpcLimitExceeded) when calling the CreateSecurityGroup operation'']\<rparr>)"
  using not_duplicate_limit
  by (simp add: scenario_defs end_to_end_def group_rejected_def)





section \<open>Empty answers and the logged exit\<close>

lemma resolver_empty_lookup:
  "resolver_run cfg vpc r es \<Longrightarrow> DescribeSecurityGroups ns (Inr []) \<in> set es \<Longrightarrow>
     r = Inl IndexError \<and> filter is_error_log es = []
     \<and> last es = DescribeSecurityGroups ns (Inr [])"
  by (induction rule: resolver_run.induct) (auto elim!: lookup_run.cases)

lemma provision_no_lookup:
  "provision_run cfg g r es \<Longrightarrow>
     DescribeSecurityGroups ns a \<notin> set es \<and> DescribeVpcs b \<notin> set es"
  by (induction rule: provision_run.induct) auto

lemma monitoring_no_lookup:
  "monitoring_run iid r es \<Longrightarrow>
     DescribeSecurityGroups ns a \<notin> set es \<and> DescribeVpcs b \<notin> set es"
  by (induction rule: monitoring_run.induct) auto

lemma resolver_no_describe_vpcs:
  "resolver_run cfg vpc r es \<Longrightarrow> DescribeVpcs b \<notin> set es"
  by (induction rule: resolver_run.induct) (auto elim!: lookup_run.cases)

lemma resolver_error_log:
  "resolver_run cfg vpc r es \<Longrightarrow>
     (list_ex is_error_log es \<longleftrightarrow> r = Inl (SystemExit 1))
     \<and> (\<forall>n. r = Inl (SystemExit n) \<longrightarrow> n = 1 \<and> list_ex rejected_call es)"
  by (induction rule: resolver_run.induct) (auto elim!: lookup_run.cases)

lemma provision_error_log:
  "provision_run cfg g r es \<Longrightarrow>
     (list_ex is_error_log es \<longleftrightarrow> r = Inl (SystemExit 1))
     \<and> (\<forall>n. r = Inl (SystemExit n) \<longrightarrow> n = 1 \<and> list_ex rejected_call es)"
  by (induction rule: provision_run.induct) auto

lemma monitoring_error_log:
  "monitoring_run iid r es \<Longrightarrow>
     \<not> list_ex is_error_log es \<and> (\<forall>n. r \<noteq> Inl (SystemExit n))"
  by (induction rule: monitoring_run.induct) auto

lemma main_error_log:
  assumes "main_run cfg r es"
  shows "(list_ex is_error_log es \<longleftrightarrow> r = Inl (SystemExit 1))
     \<and> (\<forall>n. r = Inl (SystemExit n) \<longrightarrow> n = 1 \<and> list_ex rejected_call es)"
  using assms
proof (cases rule: main_run_paths)
  case (group_failed v vs e res)
  with resolver_error_log[OF group_failed(3)] show ?thesis by auto
next
  case (launch_failed v vs g res e prov)
  with resolver_error_log[OF launch_failed(3)] provision_error_log[OF launch_failed(4)]
  show ?thesis by auto
next
  case (monitoring_failed v vs g res inst prov e mon)
  with resolver_error_log[OF monitoring_failed(3)] provision_error_log[OF monitoring_failed(4)]
    monitoring_error_log[OF monitoring_failed(5)]
  show ?thesis by auto
next
  case (completed v vs g res inst prov mon)
  with resolver_error_log[OF completed(3)] provision_error_log[OF completed(4)]
    monitoring_error_log[OF completed(5)]
  show ?thesis by (auto simp: report_lines_def)
qed auto

lemma main_empty_answers:
  assumes "main_run cfg r es"
    and h: "DescribeVpcs (Inr []) \<in> set es \<or> DescribeSecurityGroups ns (Inr []) \<in> set es"
  shows "r = Inl IndexError"
  using assms(1)
proof (cases rule: main_run_paths)
  case (group_failed v vs e res)
  with h group_failed resolver_no_describe_vpcs[OF group_failed(3)]
    resolver_empty_lookup[OF group_failed(3)]
  show ?thesis by auto
next
  case (launch_failed v vs g res e prov)
  with h launch_failed resolver_no_describe_vpcs[OF launch_failed(3)]
    resolver_empty_lookup[OF launch_failed(3)] provision_no_lookup[OF launch_failed(4)]
  show ?thesis by auto
next
  case (monitoring_failed v vs g res inst prov e mon)
  with h monitoring_failed resolver_no_describe_vpcs[OF monitoring_failed(3)]
    resolver_empty_lookup[OF monitoring_failed(3)] provision_no_lookup[OF monitoring_failed(4)]
    monitoring_no_lookup[OF monitoring_failed(5)]
  show ?thesis by auto
next
  case (completed v vs g res inst prov mon)
  with h completed resolver_no_describe_vpcs[OF completed(3)]
    resolver_empty_lookup[OF completed(3)] provision_no_lookup[OF completed(4)]
    monitoring_no_lookup[OF completed(5)]
  show ?thesis by (auto simp: report_lines_def)
qed (use h in auto)

text \<open>
  Claim C10. A run in which \<open>describe_vpcs\<close> lists no network, or in which the
  lookup of the duplicate-name fallback lists no group, ends with \<open>IndexError\<close> and
  without an error record. An error record is written exactly in the runs that end with
  \<open>SystemExit(1)\<close>, and every run that ends with \<open>SystemExit\<close> has a call that was
  answered with a \<open>ClientError\<close>.
\<close>

theorem empty_answers_are_unhandled:
  "(DescribeVpcs (Inr []) \<in> set (events (run (main cfg boto3) s))
      \<or> DescribeSecurityGroups ns (Inr []) \<in> set (events (run (main cfg boto3) s)) \<longrightarrow>
        outcome (run (main cfg boto3) s) = Inl IndexError
        \<and> \<not> list_ex is_error_log (events (run (main cfg boto3) s)))
   \<and> (list_ex is_error_log (events (run (main cfg boto3) s)) \<longleftrightarrow>
        outcome (run (main cfg boto3) s) = Inl (SystemExit 1))
   \<and> (\<forall>n. outcome (run (main cfg boto3) s) = Inl (SystemExit n) \<longrightarrow>
        n = 1 \<and> list_ex rejected_call (events (run (main cfg boto3) s)))"
  using main_error_log[OF run_main, of cfg boto3 s] main_empty_answers[OF run_main, of cfg boto3 s ns]
  by auto

lemma no_network_run:
  "run (main scenario_config (\<lambda>_. scripted no_network)) () =
     (Inl IndexError,
      \<lparr>cloud = (),
       trace =
        [Log INFO ''Starting Langraph website deployment on AWS EC2...'',
         DescribeVpcs (Inr [])]\<rparr>)"
  by (simp add: scenario_defs end_to_end_def no_network_def)

lemma vanished_group_run:
  "run (main scenario_config (\<lambda>_. scripted vanished_group)) () =
     (Inl IndexError,
      \<lparr>cloud = (),
       trace =
        [Log INFO ''Starting Langraph website deployment on AWS EC2...'',
         DescribeVpcs (Inr [\<lparr>VpcId = ''vpc-1''\<rparr>]),
         CreateSecurityGroup ''web-sg'' ''Security group for Langraph web server'' ''vpc-1''
           (Inl (ClientError duplicate_message)),
         DescribeSecurityGroups [''web-sg''] (Inr [])]\<rparr>)"
  by (simp add: scenario_defs end_to_end_def duplicate_group_def vanished_group_def)

theorem empty_answers_are_unhandled_witness:
  "DescribeVpcs (Inr []) \<in> set (events (run (main scenario_config (\<lambda>_. scripted no_network)) ()))
   \<and> outcome (run (main scenario_config (\<lambda>_. scripted no_network)) ()) = Inl IndexError
   \<and> \<not> list_ex is_error_log (events (run (main scenario_config (\<lambda>_. scripted no_network)) ()))
   \<and> DescribeSecurityGroups [''web-sg''] (Inr [])
        \<in> set (events (run (main scenario_config (\<lambda>_. scripted vanished_group)) ()))
   \<and> outcome (run (main scenario_config (\<lambda>_. scripted vanished_group)) ()) = Inl IndexError
   \<and> \<not> list_ex is_error_log (events (run (main scenario_config (\<lambda>_. scripted vanished_group)) ()))
   \<and> outcome (run (main scenario_config (\<lambda>_. scripted group_rejected)) ()) = Inl (SystemExit 1)
   \<and> list_ex is_error_log (events (run (main scenario_config (\<lambda>_. scripted group_rejected)) ()))
   \<and> list_ex rejected_call (events (run (main scenario_config (\<lambda>_. scripted group_rejected)) ()))"
  using empty_answers_are_unhandled[of scenario_config "\<lambda>_. scripted no_network" "()" "[''web-sg'']"]
    empty_answers_are_unhandled[of scenario_config "\<lambda>_. scripted vanished_group" "()" "[''web-sg'']"]
    empty_answers_are_unhandled[of scenario_config "\<lambda>_. scripted group_rejected" "()" "[''web-sg'']"]
  by (simp add: no_network_run vanished_group_run group_rejected_run events_def outcome_def)


section \<open>Monitoring\<close>

lemma run_setup_monitoring:
  "monitoring_run iid (outcome (run (setup_monitoring cfg boto3 iid) s))
     (events (run (setup_monitoring cfg boto3 iid) s))"
  using setup_monitoring_run[of cfg boto3 iid "\<lparr>cloud = s, trace = []\<rparr>"]
  by (cases "setup_monitoring cfg boto3 iid \<lparr>cloud = s, trace = []\<rparr>")
     (auto simp: run_def outcome_def events_def)

lemma monitoring_answers:
  "monitoring_run iid r es \<Longrightarrow>
     (MonitorInstances ids (Inl (ClientError e)) \<in> set es \<longrightarrow>
        r = Inr () \<and> ids = [iid]
        \<and> es = [MonitorInstances [iid] (Inl (ClientError e)),
                Log WARNING (''Could not enable monitoring: '' @ e)])
     \<and> (MonitorInstances ids (Inr ()) \<in> set es \<longrightarrow> r = Inr ())"
  by (induction rule: monitoring_run.induct) auto

lemma resolver_no_monitor:
  "resolver_run cfg vpc r es \<Longrightarrow> filter is_monitor es = []"
  by (induction rule: resolver_run.induct) (auto elim!: lookup_run.cases)

lemma provision_no_monitor:
  "provision_run cfg g r es \<Longrightarrow> filter is_monitor es = []"
  by (induction rule: provision_run.induct) auto

lemma provision_create_failed:
  "provision_run cfg g r es \<Longrightarrow> CreateInstances req (Inl x) \<in> set es \<Longrightarrow> \<exists>e. r = Inl e"
  by (induction rule: provision_run.induct) auto

lemma monitor_not_in_filter:
  "filter is_monitor es = [] \<Longrightarrow> MonitorInstances ids a \<notin> set es"
  by (auto simp: filter_empty_conv)

lemma create_instances_not_in_filter:
  "filter is_create_instances es = [] \<Longrightarrow> CreateInstances req a \<notin> set es"
  by (auto simp: filter_empty_conv)

lemma main_monitoring:
  assumes "main_run cfg r es"
  shows "(MonitorInstances ids (Inl (ClientError e)) \<in> set es \<longrightarrow>
            r = Inr () \<and> Log WARNING (''Could not enable monitoring: '' @ e) \<in> set es
            \<and> Sleep 60 \<in> set es)
         \<and> (MonitorInstances ids (Inr ()) \<in> set es \<longrightarrow> r = Inr ())
         \<and> (CreateInstances req (Inl x) \<in> set es \<longrightarrow> (\<exists>e'. r = Inl e') \<and> filter is_monitor es = [])"
  using assms
proof (cases rule: main_run_paths)
  case (group_failed v vs e' res)
  with monitor_not_in_filter[OF resolver_no_monitor[OF group_failed(3)]]
    create_instances_not_in_filter[OF resolver_no_create_instances[OF group_failed(3)]]
  show ?thesis by auto
next
  case (launch_failed v vs g res e' prov)
  with monitor_not_in_filter[OF resolver_no_monitor[OF launch_failed(3)]]
    monitor_not_in_filter[OF provision_no_monitor[OF launch_failed(4)]]
    resolver_no_monitor[OF launch_failed(3)] provision_no_monitor[OF launch_failed(4)]
  show ?thesis by auto
next
  case (monitoring_failed v vs g res inst prov e' mon)
  with monitor_not_in_filter[OF resolver_no_monitor[OF monitoring_failed(3)]]
    monitor_not_in_filter[OF provision_no_monitor[OF monitoring_failed(4)]]
    create_instances_not_in_filter[OF resolver_no_create_instances[OF monitoring_failed(3)]]
    create_instances_not_in_filter[OF monitoring_no_create_instances[OF monitoring_failed(5)]]
    provision_create_failed[OF monitoring_failed(4), of req x]
    monitoring_answers[OF monitoring_failed(5), of ids e]
  show ?thesis by auto
next
  case (completed v vs g res inst prov mon)
  with monitor_not_in_filter[OF resolver_no_monitor[OF completed(3)]]
    monitor_not_in_filter[OF provision_no_monitor[OF completed(4)]]
    create_instances_not_in_filter[OF resolver_no_create_instances[OF completed(3)]]
    create_instances_not_in_filter[OF monitoring_no_create_instances[OF completed(5)]]
    provision_create_failed[OF completed(4), of req x]
    monitoring_answers[OF completed(5), of ids e]
  show ?thesis by (auto simp: report_lines_def)
qed auto

text \<open>
  Claim C4, amended. When the monitoring call is rejected with a \<open>ClientError\<close>,
  \<open>setup_monitoring\<close> records a warning and returns; the run goes on through the
  sleep of 60 seconds and the report and returns, through the same five steps as a run in
  which the call succeeds. When the instance-creation call fails, with whatever exception,
  the run does not return and makes no monitoring call.
\<close>

theorem rejected_monitoring_is_not_fatal:
  "(MonitorInstances ids (Inl (ClientError e))
       \<in> set (events (run (setup_monitoring cfg boto3 iid) s)) \<longrightarrow>
      outcome (run (setup_monitoring cfg boto3 iid) s) = Inr ()
      \<and> events (run (setup_monitoring cfg boto3 iid) s)
         = [MonitorInstances [iid] (Inl (ClientError e)),
            Log WARNING (''Could not enable monitoring: '' @ e)])
   \<and> (MonitorInstances ids (Inl (ClientError e)) \<in> set (events (run (main cfg boto3) s')) \<longrightarrow>
      outcome (run (main cfg boto3) s') = Inr ()
      \<and> Log WARNING (''Could not enable monitoring: '' @ e) \<in> set (events (run (main cfg boto3) s'))
      \<and> Sleep 60 \<in> set (events (run (main cfg boto3) s'))
      \<and> steps (events (run (main cfg boto3) s'))
         = [ResolveGroup, LaunchInstance, AttemptMonitoring, Settle, Report])
   \<and> (MonitorInstances ids (Inr ()) \<in> set (events (run (main cfg boto3) s')) \<longrightarrow>
      outcome (run (main cfg boto3) s') = Inr ()
      \<and> steps (events (run (main cfg boto3) s'))
         = [ResolveGroup, LaunchInstance, AttemptMonitoring, Settle, Report])
   \<and> (CreateInstances req (Inl x) \<in> set (events (run (main cfg boto3) s')) \<longrightarrow>
      (\<exists>e'. outcome (run (main cfg boto3) s') = Inl e')
      \<and> filter is_monitor (events (run (main cfg boto3) s')) = [])"
  using monitoring_answers[OF run_setup_monitoring[of iid cfg boto3 s], of ids e]
    main_monitoring[OF run_main[of cfg boto3 s'], of ids e req x]
    main_steps[OF run_main[of cfg boto3 s']]
  by (auto split: sum.splits)

lemma monitoring_rejected_setup:
  "run (setup_monitoring scenario_config (\<lambda>_. scripted monitoring_rejected) ''i-001'') () =
     (Inr (),
      \<lparr>cloud = (),
       trace =
        [MonitorInstances [''i-001'']
           (Inl (ClientError ''An error occurred (UnauthorizedOperation) when calling the MonitorInstances operation'')),
         Log WARNING ''Could not enable monitoring: An error occurred (UnauthorizedOperation) when calling the MonitorInstances operation'']\<rparr>)"
  by (simp add: scenario_defs end_to_end_def monitoring_rejected_def)

lemma monitoring_rejected_run:
  "run (main scenario_config (\<lambda>_. scripted monitoring_rejected)) () =
     (Inr (),
      \<lparr>cloud = (),
       trace =
        [Log INFO ''Starting Langraph website deployment on AWS EC2...'',
         DescribeVpcs (Inr [\<lparr>VpcId = ''vpc-1''\<rparr>]),
         CreateSecurityGroup ''web-sg'' ''Security group for Langraph web server'' ''vpc-1''
           (Inr ''sg-001''),
         Log INFO ''Created security group web-sg with ID sg-001'',
         AuthorizeSecurityGroupIngress ''sg-001'' ingress_rules (Inr ()),
         Log INFO ''Configured security group ingress rules.'',
         CreateInstances (instance_request scenario_config ''sg-001'')
           (Inr [\<lparr>instance_id = ''i-001'', public_ip_address = None\<rparr>]),
         Log INFO ''Launching EC2 instance i-001...'',
         WaitUntilRunning ''i-001'' (Inr ()),
         Reload ''i-001'' (Inr (Some ''203.0.113.5'')),
         Log INFO ''EC2 instance is running at 203.0.113.5'',
         MonitorInstances [''i-001'']
           (Inl (ClientError ''An error occurred (UnauthorizedOperation) when calling the MonitorInstances operation'')),
         Log WARNING ''Could not enable monitoring: An error occurred (UnauthorizedOperation) when calling the MonitorInstances operation'',
         Log INFO ''Waiting for web server to start...'',
         Sleep 60,
         Log INFO ''Website should be available at: http://203.0.113.5/'',
         Log INFO ''AI-powered features available at: http://203.0.113.5/ai (POST JSON: {'text': 'your input'})'',
         Log INFO ''Deployment complete. Monitor instance in AWS Console for resource usage and uptime.'']\<rparr>)"
  by (simp add: scenario_defs end_to_end_def monitoring_rejected_def)

lemma monitoring_unreachable_run:
  "run (main scenario_config (\<lambda>_. scripted monitoring_unreachable)) () =
     (Inl (Raised (OtherBotoCoreError ''Could not connect to the endpoint URL'')),
      \<lparr>cloud = (),
       trace =
        [Log INFO ''Starting Langraph website deployment on AWS EC2...'',
         DescribeVpcs (Inr [\<lparr>VpcId = ''vpc-1''\<rparr>]),
         CreateSecurityGroup ''web-sg'' ''Security group for Langraph web server'' ''vpc-1''
           (Inr ''sg-001''),
         Log INFO ''Created security group web-sg with ID sg-001'',
         AuthorizeSecurityGroupIngress ''sg-001'' ingress_rules (Inr ()),
         Log INFO ''Configured security group ingress rules.'',
         CreateInstances (instance_request scenario_config ''sg-001'')
           (Inr [\<lparr>instance_id = ''i-001'', public_ip_address = None\<rparr>]),
         Log INFO ''Launching EC2 instance i-001...'',
         WaitUntilRunning ''i-001'' (Inr ()),
         Reload ''i-001'' (Inr (Some ''203.0.113.5'')),
         Log INFO ''EC2 instance is running at 203.0.113.5'',
         MonitorInstances [''i-001'']
           (Inl (OtherBotoCoreError ''Could not connect to the endpoint URL''))]\<rparr>)"
  by (simp add: scenario_defs end_to_end_def monitoring_unreachable_def)

lemma end_to_end_run:
  "run (main scenario_config (\<lambda>_. scripted end_to_end)) () =
     (Inr (), \<lparr>cloud = (), trace = events (run (main scenario_config (\<lambda>_. scripted end_to_end)) ())\<rparr>)"
  by (simp add: scenario_defs end_to_end_def)

lemma end_to_end_monitored:
  "MonitorInstances [''i-001''] (Inr ())
     \<in> set (events (run (main scenario_config (\<lambda>_. scripted end_to_end)) ()))"
  by (simp add: end_to_end_events)

lemma end_to_end_steps:
  "steps (events (run (main scenario_config (\<lambda>_. scripted end_to_end)) ()))
     = [ResolveGroup, LaunchInstance, AttemptMonitoring, Settle, Report]"
  by (simp add: end_to_end_events steps_def List.map_filter_simps is_report_def)

theorem rejected_monitoring_is_not_fatal_witness:
  "MonitorInstances [''i-001'']
       (Inl (ClientError ''An error occurred (UnauthorizedOperation) when calling the MonitorInstances operation''))
     \<in> set (events (run (setup_monitoring scenario_config (\<lambda>_. scripted monitoring_rejected) ''i-001'') ()))
   \<and> outcome (run (setup_monitoring scenario_config (\<lambda>_. scripted monitoring_rejected) ''i-001'') ())
      = Inr ()
   \<and> MonitorInstances [''i-001'']
       (Inl (ClientError ''An error occurred (UnauthorizedOperation) when calling the MonitorInstances operation''))
     \<in> set (events (run (main scenario_config (\<lambda>_. scripted monitoring_rejected)) ()))
   \<and> outcome (run (main scenario_config (\<lambda>_. scripted monitoring_rejected)) ()) = Inr ()
   \<and> Sleep 60 \<in> set (events (run (main scenario_config (\<lambda>_. scripted monitoring_rejected)) ()))
   \<and> steps (events (run (main scenario_config (\<lambda>_. scripted monitoring_rejected)) ()))
      = [ResolveGroup, LaunchInstance, AttemptMonitoring, Settle, Report]
   \<and> MonitorInstances [''i-001''] (Inr ())
     \<in> set (events (run (main scenario_config (\<lambda>_. scripted end_to_end)) ()))
   \<and> outcome (run (main scenario_config (\<lambda>_. scripted end_to_end)) ()) = Inr ()
   \<and> steps (events (run (main scenario_config (\<lambda>_. scripted end_to_end)) ()))
      = [ResolveGroup, LaunchInstance, AttemptMonitoring, Settle, Report]
   \<and> CreateInstances (instance_request scenario_config ''sg-001'')
        (Inl (ClientError ''An error occurred (InvalidAMIID.NotFound) when calling the RunInstances operation''))
     \<in> set (events (run (main scenario_config (\<lambda>_. scripted instance_rejected)) ()))
   \<and> outcome (run (main scenario_config (\<lambda>_. scripted instance_rejected)) ()) = Inl (SystemExit 1)
   \<and> filter is_monitor (events (run (main scenario_config (\<lambda>_. scripted instance_rejected)) ())) = []"
  using rejected_monitoring_is_not_fatal[of "[''i-001'']"
      "''An error occurred (UnauthorizedOperation) when calling the MonitorInstances operation''"
      scenario_config "\<lambda>_. scripted monitoring_rejected" "''i-001''" "()" "()"
      "instance_request scenario_config ''sg-001''"
      "ClientError ''An error occurred (InvalidAMIID.NotFound) when calling the RunInstances operation''"]
    rejected_monitoring_is_not_fatal[of "[''i-001'']"
      "''An error occurred (UnauthorizedOperation) when calling the MonitorInstances operation''"
      scenario_config "\<lambda>_. scripted instance_rejected" "''i-001''" "()" "()"
      "instance_request scenario_config ''sg-001''"
      "ClientError ''An error occurred (InvalidAMIID.NotFound) when calling the RunInstances operation''"]
  by (simp add: end_to_end_steps end_to_end_outcome end_to_end_monitored)
     (simp add: monitoring_rejected_setup monitoring_rejected_run
      instance_rejected_run events_def outcome_def)

text \<open>
  The claim as first stated covers every failure of the monitoring call. A failure that is
  not a \<open>ClientError\<close> passes the \<open>except\<close> clause of \<open>setup_monitoring\<close> and
  ends the run before the sleep and the report.
\<close>

theorem unreachable_monitoring_aborts:
  "MonitorInstances [''i-001''] (Inl (OtherBotoCoreError ''Could not connect to the endpoint URL''))
     \<in> set (events (run (main scenario_config (\<lambda>_. scripted monitoring_unreachable)) ()))
   \<and> outcome (run (main scenario_config (\<lambda>_. scripted monitoring_unreachable)) ())
      = Inl (Raised (OtherBotoCoreError ''Could not connect to the endpoint URL''))
   \<and> filter is_sleep (events (run (main scenario_config (\<lambda>_. scripted monitoring_unreachable)) ())) = []
   \<and> steps (events (run (main scenario_config (\<lambda>_. scripted monitoring_unreachable)) ()))
      = [ResolveGroup, LaunchInstance, AttemptMonitoring]"
  by (simp add: monitoring_unreachable_run events_def outcome_def steps_def
      List.map_filter_simps is_report_def)


section \<open>The successful run\<close>

lemma lookup_calls:
  "lookup_run cfg r es \<Longrightarrow> calls es = [''describe_security_groups'']"
  by (induction rule: lookup_run.induct) (simp_all add: calls_def)

lemma resolver_ok_calls:
  "resolver_run cfg vpc (Inr g) es \<Longrightarrow>
     calls es = [''create_security_group'', ''authorize_security_group_ingress'']
     \<or> calls es = [''create_security_group'', ''describe_security_groups'']
     \<or> calls es = [''create_security_group'', ''authorize_security_group_ingress'',
                     ''describe_security_groups'']"
  by (cases rule: resolver_run.cases)
     (auto simp: calls_def map_filter_append dest!: lookup_calls)

lemma provision_ok:
  "provision_run cfg g (Inr inst) es \<Longrightarrow>
     calls es = [''create_instances'', ''wait_until_running'', ''reload'']
     \<and> Reload (instance_id inst) (Inr (public_ip_address inst)) \<in> set es
     \<and> Log INFO (''Launching EC2 instance '' @ instance_id inst @ ''...'') \<in> set es
     \<and> filter is_sleep es = []"
  by (cases rule: provision_run.cases) (auto simp: calls_def)

lemma monitoring_ok:
  "monitoring_run iid (Inr ()) es \<Longrightarrow>
     calls es = [''monitor_instances''] \<and> filter is_sleep es = []
     \<and> (Log INFO (''Enabled detailed monitoring for instance '' @ iid) \<in> set es
          \<longleftrightarrow> MonitorInstances [iid] (Inr ()) \<in> set es)"
  by (cases rule: monitoring_run.cases) (auto simp: calls_def)

lemma resolver_no_sleep:
  "resolver_run cfg vpc r es \<Longrightarrow> filter is_sleep es = []"
  by (induction rule: resolver_run.induct) (auto elim!: lookup_run.cases)

lemma calls_append: "calls (xs @ ys) = calls xs @ calls ys"
  by (simp add: calls_def map_filter_append)

lemma calls_Cons:
  "calls (x # xs) = (case call_name x of None \<Rightarrow> calls xs | Some c \<Rightarrow> c # calls xs)"
  by (simp add: calls_def split: option.split)

lemma calls_Nil: "calls [] = []"
  by (simp add: calls_def)

lemma calls_report_lines: "calls (report_lines ip) = []"
  by (simp add: calls_def report_lines_def)

lemma report_after_sleep:
  "filter is_sleep xs = [] \<Longrightarrow> report (xs @ Sleep n # ys) = ys"
  by (induction xs) (auto simp: report_def split: if_splits)

lemma main_completed:
  assumes "main_run cfg (Inr ()) es"
  shows "\<exists>group_calls iid ip.
           calls es = ''describe_vpcs'' # group_calls
              @ [''create_instances'', ''wait_until_running'', ''reload'',
                 ''monitor_instances'', ''sleep'']
           \<and> (group_calls = [''create_security_group'', ''authorize_security_group_ingress'']
              \<or> group_calls = [''create_security_group'', ''describe_security_groups'']
              \<or> group_calls = [''create_security_group'', ''authorize_security_group_ingress'',
                     ''describe_security_groups''])
           \<and> filter is_sleep es = [Sleep 60]
           \<and> report es = report_lines ip
           \<and> Reload iid (Inr ip) \<in> set es
           \<and> Log INFO (''Launching EC2 instance '' @ iid @ ''...'') \<in> set es"
  using assms
proof (cases rule: main_run_paths)
  case (completed v vs g res inst prov mon)
  let ?pre = "starting # DescribeVpcs (Inr (v # vs)) # res @ prov @ mon
         @ [Log INFO ''Waiting for web server to start...'']"
  have es: "es = ?pre @ Sleep 60 # report_lines (public_ip_address inst)"
    using completed(2) by simp
  have ns: "filter is_sleep ?pre = []"
    using resolver_no_sleep[OF completed(3)] provision_ok[OF completed(4)]
      monitoring_ok[OF completed(5)] by simp
  have rep: "report es = report_lines (public_ip_address inst)"
    unfolding es using ns by (rule report_after_sleep)
  have sl: "filter is_sleep es = [Sleep 60]"
    unfolding es using ns by (simp add: report_lines_def)
  have c: "calls es = ''describe_vpcs'' # calls res
              @ [''create_instances'', ''wait_until_running'', ''reload'',
                 ''monitor_instances'', ''sleep'']"
    using provision_ok[OF completed(4)] monitoring_ok[OF completed(5)] completed(2)
    by (simp add: calls_append calls_report_lines calls_Cons calls_Nil)
  from resolver_ok_calls[OF completed(3)] c rep sl provision_ok[OF completed(4)] completed(2)
  show ?thesis
    by (intro exI[of _ "calls res"] exI[of _ "instance_id inst"]
        exI[of _ "public_ip_address inst"]) auto
qed auto

lemma resolver_one_create:
  "resolver_run cfg vpc r es \<Longrightarrow>
     \<exists>resp. filter is_create_security_group es = [csg cfg vpc resp]"
  by (induction rule: resolver_run.induct) (auto elim!: lookup_run.cases)

lemma provision_no_create_group:
  "provision_run cfg g r es \<Longrightarrow> filter is_create_security_group es = []"
  by (induction rule: provision_run.induct) auto

lemma monitoring_no_create_group:
  "monitoring_run iid r es \<Longrightarrow> filter is_create_security_group es = []"
  by (induction rule: monitoring_run.induct) auto

lemma monitoring_ok_flag:
  "monitoring_run iid (Inr ()) es \<Longrightarrow>
     (filter is_monitor es = [MonitorInstances [iid] (Inr ())]
        \<and> Log INFO (''Enabled detailed monitoring for instance '' @ iid) \<in> set es)
     \<or> (\<exists>e. filter is_monitor es = [MonitorInstances [iid] (Inl (ClientError e))]
           \<and> Log WARNING (''Could not enable monitoring: '' @ e) \<in> set es)"
  by (cases rule: monitoring_run.cases) auto

lemma main_completed_group_and_monitoring:
  assumes "main_run cfg (Inr ()) es"
  shows "(\<exists>vpc resp. filter is_create_security_group es = [csg cfg vpc resp])
     \<and> (\<exists>iid. Log INFO (''Launching EC2 instance '' @ iid @ ''...'') \<in> set es
          \<and> ((filter is_monitor es = [MonitorInstances [iid] (Inr ())]
                \<and> Log INFO (''Enabled detailed monitoring for instance '' @ iid) \<in> set es)
              \<or> (\<exists>e. filter is_monitor es = [MonitorInstances [iid] (Inl (ClientError e))]
                   \<and> Log WARNING (''Could not enable monitoring: '' @ e) \<in> set es)))"
  using assms
proof (cases rule: main_run_paths)
  case (completed v vs g res inst prov mon)
  from resolver_one_create[OF completed(3)] provision_no_create_group[OF completed(4)]
    monitoring_no_create_group[OF completed(5)] completed(2)
  have g: "\<exists>vpc resp. filter is_create_security_group es = [csg cfg vpc resp]"
    by (auto simp: report_lines_def)
  from monitoring_ok_flag[OF completed(5)] resolver_no_monitor[OF completed(3)]
    provision_no_monitor[OF completed(4)] provision_ok[OF completed(4)] completed(2)
  have "Log INFO (''Launching EC2 instance '' @ instance_id inst @ ''...'') \<in> set es
          \<and> ((filter is_monitor es = [MonitorInstances [instance_id inst] (Inr ())]
                \<and> Log INFO (''Enabled detailed monitoring for instance '' @ instance_id inst) \<in> set es)
              \<or> (\<exists>e. filter is_monitor es = [MonitorInstances [instance_id inst] (Inl (ClientError e))]
                   \<and> Log WARNING (''Could not enable monitoring: '' @ e) \<in> set es))"
    by (auto simp: report_lines_def)
  with g show ?thesis by blast
qed auto

lemma report_lines_logs: "list_all is_log (report_lines ip) \<and> length (report_lines ip) = 3"
  by (simp add: report_lines_def)

lemma main_steps_prefix:
  assumes "main_run cfg r es"
  shows "prefix (steps es) [ResolveGroup, LaunchInstance, AttemptMonitoring, Settle, Report]"
  using main_steps[OF assms] by (auto split: sum.splits)

text \<open>
  Claim C9. A run that succeeds goes through the five steps in order: resolution of the
  group, launch of the instance, the monitoring attempt, the settle wait, the report. Its
  calls are, in this order: \<open>describe_vpcs\<close>; \<open>create_security_group\<close> followed by the
  ingress call, the lookup, or both; \<open>create_instances\<close>, \<open>wait_until_running\<close>,
  \<open>reload\<close>; \<open>monitor_instances\<close>; one sleep, of 60 seconds; and after the sleep
  nothing but the three log records of the report. The steps of any run, failed or not,
  are a prefix of the five: no step comes out of order and nothing is undone.
\<close>

theorem steps_in_fixed_order:
  "(outcome (run (main cfg boto3) s) = Inr () \<longrightarrow>
      steps (events (run (main cfg boto3) s))
        = [ResolveGroup, LaunchInstance, AttemptMonitoring, Settle, Report]
      \<and> (\<exists>group_calls.
            calls (events (run (main cfg boto3) s))
              = ''describe_vpcs'' # group_calls
                @ [''create_instances'', ''wait_until_running'', ''reload'',
                   ''monitor_instances'', ''sleep'']
            \<and> (group_calls = [''create_security_group'', ''authorize_security_group_ingress'']
               \<or> group_calls = [''create_security_group'', ''describe_security_groups'']
               \<or> group_calls = [''create_security_group'', ''authorize_security_group_ingress'',
                                  ''describe_security_groups'']))
      \<and> filter is_sleep (events (run (main cfg boto3) s)) = [Sleep 60]
      \<and> list_all is_log (report (events (run (main cfg boto3) s)))
      \<and> length (report (events (run (main cfg boto3) s))) = 3)
   \<and> prefix (steps (events (run (main cfg boto3) s)))
        [ResolveGroup, LaunchInstance, AttemptMonitoring, Settle, Report]"
proof -
  note m = run_main[of cfg boto3 s]
  have "prefix (steps (events (run (main cfg boto3) s)))
        [ResolveGroup, LaunchInstance, AttemptMonitoring, Settle, Report]"
    by (rule main_steps_prefix[OF m])
  moreover have "steps (events (run (main cfg boto3) s))
        = [ResolveGroup, LaunchInstance, AttemptMonitoring, Settle, Report]"
    if "outcome (run (main cfg boto3) s) = Inr ()"
    using main_steps[OF m] that by simp
  moreover have "(\<exists>group_calls.
            calls (events (run (main cfg boto3) s))
              = ''describe_vpcs'' # group_calls
                @ [''create_instances'', ''wait_until_running'', ''reload'',
                   ''monitor_instances'', ''sleep'']
            \<and> (group_calls = [''create_security_group'', ''authorize_security_group_ingress'']
               \<or> group_calls = [''create_security_group'', ''describe_security_groups'']
               \<or> group_calls = [''create_security_group'', ''authorize_security_group_ingress'',
                                  ''describe_security_groups'']))
      \<and> filter is_sleep (events (run (main cfg boto3) s)) = [Sleep 60]
      \<and> list_all is_log (report (events (run (main cfg boto3) s)))
      \<and> length (report (events (run (main cfg boto3) s))) = 3"
    if ok: "outcome (run (main cfg boto3) s) = Inr ()"
  proof -
    from m ok have "main_run cfg (Inr ()) (events (run (main cfg boto3) s))" by simp
    from main_completed[OF this] report_lines_logs show ?thesis by metis
  qed
  ultimately show ?thesis by blast
qed

lemma end_to_end_calls:
  "calls (events (run (main scenario_config (\<lambda>_. scripted end_to_end)) ()))
     = [''describe_vpcs'', ''create_security_group'', ''authorize_security_group_ingress'',
        ''create_instances'', ''wait_until_running'', ''reload'', ''monitor_instances'', ''sleep'']"
  by (simp add: end_to_end_events calls_def)

lemma end_to_end_report:
  "report (events (run (main scenario_config (\<lambda>_. scripted end_to_end)) ()))
     = report_lines (Some ''203.0.113.5'')"
  by (simp add: end_to_end_events report_def report_lines_def str_opt_def)

lemma end_to_end_sleep:
  "filter is_sleep (events (run (main scenario_config (\<lambda>_. scripted end_to_end)) ())) = [Sleep 60]"
  by (simp add: end_to_end_events)

theorem steps_in_fixed_order_witness:
  "outcome (run (main scenario_config (\<lambda>_. scripted end_to_end)) ()) = Inr ()
   \<and> steps (events (run (main scenario_config (\<lambda>_. scripted end_to_end)) ()))
      = [ResolveGroup, LaunchInstance, AttemptMonitoring, Settle, Report]
   \<and> calls (events (run (main scenario_config (\<lambda>_. scripted end_to_end)) ()))
      = ''describe_vpcs'' # [''create_security_group'', ''authorize_security_group_ingress'']
        @ [''create_instances'', ''wait_until_running'', ''reload'', ''monitor_instances'', ''sleep'']
   \<and> filter is_sleep (events (run (main scenario_config (\<lambda>_. scripted end_to_end)) ())) = [Sleep 60]
   \<and> list_all is_log (report (events (run (main scenario_config (\<lambda>_. scripted end_to_end)) ())))
   \<and> length (report (events (run (main scenario_config (\<lambda>_. scripted end_to_end)) ()))) = 3
   \<and> prefix (steps (events (run (main scenario_config (\<lambda>_. scripted end_to_end)) ())))
        [ResolveGroup, LaunchInstance, AttemptMonitoring, Settle, Report]"
  using steps_in_fixed_order[of scenario_config "\<lambda>_. scripted end_to_end" "()"]
  by (simp add: end_to_end_outcome end_to_end_calls end_to_end_sleep)


section \<open>What a successful run reports\<close>

text \<open>
  Claim C5, amended. \<open>main\<close> returns no value. A run that succeeds has reloaded one
  instance, logged its identifier in the launch record, and reports, after the sleep, the
  address that the reload answered, in the two URLs. It has sent exactly one
  create-group call, for the configured name, and one monitoring call for that instance,
  whose result shows in the log only: an \<open>INFO\<close> record when it was enabled, a
  \<open>WARNING\<close> record when it was rejected. In the end-to-end scenario the instance is
  \<open>i-001\<close>, the address reported is \<open>203.0.113.5\<close>, monitoring is enabled and the one
  create-group call is for \<open>web-sg\<close>.
\<close>

theorem report_of_a_successful_run:
  "(outcome (run (main cfg boto3) s) = Inr () \<longrightarrow>
      (\<exists>iid ip.
          Reload iid (Inr ip) \<in> set (events (run (main cfg boto3) s))
          \<and> Log INFO (''Launching EC2 instance '' @ iid @ ''...'')
               \<in> set (events (run (main cfg boto3) s))
          \<and> report (events (run (main cfg boto3) s)) = report_lines ip)
      \<and> (\<exists>iid.
          Log INFO (''Launching EC2 instance '' @ iid @ ''...'')
               \<in> set (events (run (main cfg boto3) s))
          \<and> ((filter is_monitor (events (run (main cfg boto3) s))
                  = [MonitorInstances [iid] (Inr ())]
                \<and> Log INFO (''Enabled detailed monitoring for instance '' @ iid)
                     \<in> set (events (run (main cfg boto3) s)))
              \<or> (\<exists>e. filter is_monitor (events (run (main cfg boto3) s))
                         = [MonitorInstances [iid] (Inl (ClientError e))]
                   \<and> Log WARNING (''Could not enable monitoring: '' @ e)
                        \<in> set (events (run (main cfg boto3) s)))))
      \<and> (\<exists>vpc resp. filter is_create_security_group (events (run (main cfg boto3) s))
             = [CreateSecurityGroup (EC2_SECURITY_GROUP_NAME cfg)
                  ''Security group for Langraph web server'' vpc resp]))
   \<and> outcome (run (main scenario_config (\<lambda>_. scripted end_to_end)) ()) = Inr ()
   \<and> Log INFO ''Launching EC2 instance i-001...''
        \<in> set (events (run (main scenario_config (\<lambda>_. scripted end_to_end)) ()))
   \<and> report (events (run (main scenario_config (\<lambda>_. scripted end_to_end)) ()))
        = [Log INFO ''Website should be available at: http://203.0.113.5/'',
           Log INFO ''AI-powered features available at: http://203.0.113.5/ai (POST JSON: {'text': 'your input'})'',
           Log INFO ''Deployment complete. Monitor instance in AWS Console for resource usage and uptime.'']
   \<and> Log INFO ''Enabled detailed monitoring for instance i-001''
        \<in> set (events (run (main scenario_config (\<lambda>_. scripted end_to_end)) ()))
   \<and> filter is_create_security_group
          (events (run (main scenario_config (\<lambda>_. scripted end_to_end)) ()))
        = [CreateSecurityGroup ''web-sg'' ''Security group for Langraph web server'' ''vpc-1''
             (Inr ''sg-001'')]"
proof -
  have general: "(\<exists>iid ip.
          Reload iid (Inr ip) \<in> set (events (run (main cfg boto3) s))
          \<and> Log INFO (''Launching EC2 instance '' @ iid @ ''...'')
               \<in> set (events (run (main cfg boto3) s))
          \<and> report (events (run (main cfg boto3) s)) = report_lines ip)
      \<and> (\<exists>iid.
          Log INFO (''Launching EC2 instance '' @ iid @ ''...'')
               \<in> set (events (run (main cfg boto3) s))
          \<and> ((filter is_monitor (events (run (main cfg boto3) s))
                  = [MonitorInstances [iid] (Inr ())]
                \<and> Log INFO (''Enabled detailed monitoring for instance '' @ iid)
                     \<in> set (events (run (main cfg boto3) s)))
              \<or> (\<exists>e. filter is_monitor (events (run (main cfg boto3) s))
                         = [MonitorInstances [iid] (Inl (ClientError e))]
                   \<and> Log WARNING (''Could not enable monitoring: '' @ e)
                        \<in> set (events (run (main cfg boto3) s)))))
      \<and> (\<exists>vpc resp. filter is_create_security_group (events (run (main cfg boto3) s))
             = [CreateSecurityGroup (EC2_SECURITY_GROUP_NAME cfg)
                  ''Security group for Langraph web server'' vpc resp])"
    if ok: "outcome (run (main cfg boto3) s) = Inr ()"
  proof -
    from run_main[of cfg boto3 s] ok
    have m: "main_run cfg (Inr ()) (events (run (main cfg boto3) s))" by simp
    from main_completed[OF m] have
      "\<exists>iid ip. Reload iid (Inr ip) \<in> set (events (run (main cfg boto3) s))
          \<and> Log INFO (''Launching EC2 instance '' @ iid @ ''...'')
               \<in> set (events (run (main cfg boto3) s))
          \<and> report (events (run (main cfg boto3) s)) = report_lines ip"
      by blast
    with main_completed_group_and_monitoring[OF m] show ?thesis by blast
  qed
  have scenario: "Log INFO ''Launching EC2 instance i-001...''
        \<in> set (events (run (main scenario_config (\<lambda>_. scripted end_to_end)) ()))
   \<and> Log INFO ''Enabled detailed monitoring for instance i-001''
        \<in> set (events (run (main scenario_config (\<lambda>_. scripted end_to_end)) ()))
   \<and> filter is_create_security_group
          (events (run (main scenario_config (\<lambda>_. scripted end_to_end)) ()))
        = [CreateSecurityGroup ''web-sg'' ''Security group for Langraph web server'' ''vpc-1''
             (Inr ''sg-001'')]"
    by (simp add: end_to_end_events)
  have rep: "report (events (run (main scenario_config (\<lambda>_. scripted end_to_end)) ()))
        = [Log INFO ''Website should be available at: http://203.0.113.5/'',
           Log INFO ''AI-powered features available at: http://203.0.113.5/ai (POST JSON: {'text': 'your input'})'',
           Log INFO ''Deployment complete. Monitor instance in AWS Console for resource usage and uptime.'']"
    by (simp add: end_to_end_report report_lines_def str_opt_def)
  from general scenario rep end_to_end_outcome show ?thesis by blast
qed

theorem report_of_a_successful_run_witness:
  "outcome (run (main scenario_config (\<lambda>_. scripted monitoring_rejected)) ()) = Inr ()
   \<and> (\<exists>iid ip.
          Reload iid (Inr ip)
            \<in> set (events (run (main scenario_config (\<lambda>_. scripted monitoring_rejected)) ()))
          \<and> report (events (run (main scenario_config (\<lambda>_. scripted monitoring_rejected)) ()))
             = report_lines ip)
   \<and> report (events (run (main scenario_config (\<lambda>_. scripted end_to_end)) ()))
        = report_lines (Some ''203.0.113.5'')"
proof -
  have ok: "outcome (run (main scenario_config (\<lambda>_. scripted monitoring_rejected)) ()) = Inr ()"
    by (simp add: monitoring_rejected_run outcome_def)
  from report_of_a_successful_run[of scenario_config "\<lambda>_. scripted monitoring_rejected" "()"] ok
  have "\<exists>iid ip.
          Reload iid (Inr ip)
            \<in> set (events (run (main scenario_config (\<lambda>_. scripted monitoring_rejected)) ()))
          \<and> report (events (run (main scenario_config (\<lambda>_. scripted monitoring_rejected)) ()))
             = report_lines ip"
    by blast
  with ok end_to_end_report show ?thesis by blast
qed

text \<open>
  The claim as first stated has a run produce a result with a monitoring-enabled flag.
  Two runs of the scenario, one with monitoring enabled and one with monitoring rejected,
  return the same value and report the same three records.
\<close>

theorem no_monitoring_flag_in_the_result:
  "MonitorInstances [''i-001''] (Inr ())
     \<in> set (events (run (main scenario_config (\<lambda>_. scripted end_to_end)) ()))
   \<and> MonitorInstances [''i-001'']
        (Inl (ClientError ''An error occurred (UnauthorizedOperation) when calling the MonitorInstances operation''))
     \<in> set (events (run (main scenario_config (\<lambda>_. scripted monitoring_rejected)) ()))
   \<and> outcome (run (main scenario_config (\<lambda>_. scripted end_to_end)) ()) = Inr ()
   \<and> outcome (run (main scenario_config (\<lambda>_. scripted monitoring_rejected)) ()) = Inr ()
   \<and> report (events (run (main scenario_config (\<lambda>_. scripted end_to_end)) ()))
      = report (events (run (main scenario_config (\<lambda>_. scripted monitoring_rejected)) ()))"
  by (simp add: end_to_end_monitored end_to_end_outcome end_to_end_report)
     (simp add: monitoring_rejected_run events_def outcome_def report_def report_lines_def
        str_opt_def)


section \<open>The resolver called twice\<close>

lemma not_duplicate_limit_message: "\<not> is_duplicate limit_message"
  by code_simp

lemmas registry_defs = run_def outcome_def
  create_security_group_def create_security_group_try_def
  andthen_def ret_def raise_def except_ClientError_def api_def logging_def index0_def
  registry_client_def scripted_def registry_create_def registry_describe_def

lemma resolve_in_registry:
  "outcome (run (create_security_group cfg registry_client vpc) s) =
     (if list_ex (\<lambda>g. GroupName g = EC2_SECURITY_GROUP_NAME cfg \<and> GroupVpcId g = vpc)
           (existing_groups s)
      then (case filter (\<lambda>g. GroupName g = EC2_SECURITY_GROUP_NAME cfg) (existing_groups s) of
              [] \<Rightarrow> Inl IndexError | g # _ \<Rightarrow> Inr (GroupId g))
      else (case unused_ids s of [] \<Rightarrow> Inl (SystemExit 1) | gid # _ \<Rightarrow> Inr gid))"
  "cloud (snd (run (create_security_group cfg registry_client vpc) s)) =
     (if list_ex (\<lambda>g. GroupName g = EC2_SECURITY_GROUP_NAME cfg \<and> GroupVpcId g = vpc)
           (existing_groups s)
      then s
      else (case unused_ids s of
              [] \<Rightarrow> s
            | gid # rest \<Rightarrow>
                \<lparr>existing_groups = existing_groups s
                   @ [\<lparr>GroupId = gid, GroupName = EC2_SECURITY_GROUP_NAME cfg, GroupVpcId = vpc\<rparr>],
                 unused_ids = rest\<rparr>))"
  by (simp_all add: registry_defs not_duplicate_limit_message split: list.split)

lemma at_most_one_with_key:
  "distinct (map f xs) \<Longrightarrow> \<forall>x \<in> set xs. P x \<longrightarrow> f x = k \<Longrightarrow> length (filter P xs) \<le> 1"
proof (induction xs)
  case Nil
  then show ?case by simp
next
  case (Cons x xs)
  show ?case
  proof (cases "P x")
    case True
    with Cons.prems have "f x = k" "f x \<notin> f ` set xs" by auto
    have "\<forall>y \<in> set xs. \<not> P y"
    proof (intro ballI notI)
      fix y assume y: "y \<in> set xs" "P y"
      with Cons.prems(2) have "f y = k" by simp
      with \<open>f x = k\<close> y(1) have "f x \<in> f ` set xs" by (metis imageI)
      with \<open>f x \<notin> f ` set xs\<close> show False by simp
    qed
    then have "filter P xs = []" by (simp add: filter_empty_conv)
    with True show ?thesis by simp
  next
    case False
    with Cons show ?thesis by simp
  qed
qed

text \<open>
  Where the configured name is in use in no other network, the two calls agree: the second
  returns the identifier that the first returned and leaves the groups as they were, with
  one group of that name.
\<close>

lemma resolving_twice:
  assumes "distinct (map (\<lambda>g. (GroupName g, GroupVpcId g)) (existing_groups s))"
    and "\<forall>g \<in> set (existing_groups s). GroupName g = EC2_SECURITY_GROUP_NAME cfg \<longrightarrow> GroupVpcId g = vpc"
    and "resolve_twice cfg registry_client vpc s = (Inr gid, s1, second, s2)"
  shows "second = Inr gid \<and> existing_groups s2 = existing_groups s1
     \<and> length (filter (\<lambda>g. GroupName g = EC2_SECURITY_GROUP_NAME cfg) (existing_groups s2)) = 1"
proof -
  let ?n = "EC2_SECURITY_GROUP_NAME cfg"
  let ?here = "\<lambda>g. GroupName g = ?n \<and> GroupVpcId g = vpc"
  let ?named = "\<lambda>t. filter (\<lambda>g. GroupName g = ?n) (existing_groups t)"
  from assms(3) have
    first: "outcome (run (create_security_group cfg registry_client vpc) s) = Inr gid"
    and s1: "s1 = cloud (snd (run (create_security_group cfg registry_client vpc) s))"
    and second: "second = outcome (run (create_security_group cfg registry_client vpc) s1)"
    and s2: "s2 = cloud (snd (run (create_security_group cfg registry_client vpc) s1))"
    by (auto simp: resolve_twice_def Let_def)
  have le: "length (?named s) \<le> 1"
    using at_most_one_with_key[OF assms(1), of "\<lambda>g. GroupName g = ?n" "(?n, vpc)"] assms(2)
    by simp
  have ex_iff: "list_ex ?here (existing_groups s) \<longleftrightarrow> ?named s \<noteq> []"
    using assms(2) by (auto simp: list_ex_iff filter_empty_conv)
  show ?thesis
  proof (cases "list_ex ?here (existing_groups s)")
    case True
    with ex_iff le obtain g where g: "?named s = [g]"
      by (cases "?named s") auto
    from True g first have "gid = GroupId g" by (simp add: resolve_in_registry(1))
    moreover from True s1 have "s1 = s" by (simp add: resolve_in_registry(2))
    ultimately show ?thesis
      using True g second s2 by (simp add: resolve_in_registry)
  next
    case False
    with ex_iff have none: "?named s = []" by simp
    from False first obtain rest where ids: "unused_ids s = gid # rest"
      by (auto simp: resolve_in_registry(1) split: list.splits)
    from False ids s1 have s1': "s1 = \<lparr>existing_groups = existing_groups s
        @ [\<lparr>GroupId = gid, GroupName = ?n, GroupVpcId = vpc\<rparr>], unused_ids = rest\<rparr>"
      by (simp add: resolve_in_registry(2))
    then have here: "list_ex ?here (existing_groups s1)"
      and named: "?named s1 = [\<lparr>GroupId = gid, GroupName = ?n, GroupVpcId = vpc\<rparr>]"
      using none by simp_all
    from here named second s2 show ?thesis
      by (simp add: resolve_in_registry)
  qed
qed

lemma resolve_twice_empty_cloud:
  "resolve_twice scenario_config registry_client ''vpc-a'' empty_cloud =
     (Inr ''sg-1'',
      \<lparr>existing_groups = [\<lparr>GroupId = ''sg-1'', GroupName = ''web-sg'', GroupVpcId = ''vpc-a''\<rparr>],
       unused_ids = [''sg-2'']\<rparr>,
      Inr ''sg-1'',
      \<lparr>existing_groups = [\<lparr>GroupId = ''sg-1'', GroupName = ''web-sg'', GroupVpcId = ''vpc-a''\<rparr>],
       unused_ids = [''sg-2'']\<rparr>)"
  by (simp add: resolve_twice_def Let_def resolve_in_registry empty_cloud_def scenario_config_def)

lemma resolving_twice_at_empty_cloud:
  "distinct (map (\<lambda>g. (GroupName g, GroupVpcId g)) (existing_groups empty_cloud))
   \<and> existing_groups empty_cloud = []
   \<and> resolve_twice scenario_config registry_client ''vpc-a'' empty_cloud =
       (Inr ''sg-1'',
        \<lparr>existing_groups = [\<lparr>GroupId = ''sg-1'', GroupName = ''web-sg'', GroupVpcId = ''vpc-a''\<rparr>],
         unused_ids = [''sg-2'']\<rparr>,
        Inr ''sg-1'',
        \<lparr>existing_groups = [\<lparr>GroupId = ''sg-1'', GroupName = ''web-sg'', GroupVpcId = ''vpc-a''\<rparr>],
         unused_ids = [''sg-2'']\<rparr>)
   \<and> length (filter (\<lambda>g. GroupName g = EC2_SECURITY_GROUP_NAME scenario_config)
        [\<lparr>GroupId = ''sg-1'', GroupName = ''web-sg'', GroupVpcId = ''vpc-a''\<rparr>]) = 1"
  using resolving_twice[of empty_cloud scenario_config "''vpc-a''" "''sg-1''"
      "\<lparr>existing_groups = [\<lparr>GroupId = ''sg-1'', GroupName = ''web-sg'', GroupVpcId = ''vpc-a''\<rparr>],
        unused_ids = [''sg-2'']\<rparr>"
      "Inr ''sg-1''"
      "\<lparr>existing_groups = [\<lparr>GroupId = ''sg-1'', GroupName = ''web-sg'', GroupVpcId = ''vpc-a''\<rparr>],
        unused_ids = [''sg-2'']\<rparr>"]
  by (simp add: resolve_twice_empty_cloud) (simp add: empty_cloud_def scenario_config_def)

text \<open>
  Claim C1. Two calls of the resolver with the same name and network are to return the
  same identifier. The script does not do so in every state of the cloud. Creation (line
  58) is asked for in a network, and the duplicate-name error that sends the second call
  to the fallback comes from the group of that network; the lookup of line 86 goes by the
  name alone. In a cloud with names unique in each network, where network \<open>vpc-a\<close>
  already has a group \<open>sg-1\<close> of the name, the first call for network \<open>vpc-b\<close>
  creates \<open>sg-2\<close> there and returns it; the second call for \<open>vpc-b\<close> is refused as a
  duplicate of \<open>sg-2\<close> and returns \<open>sg-1\<close>, the group of the other network.
\<close>

theorem second_call_finds_another_network:
  "distinct (map (\<lambda>g. (GroupName g, GroupVpcId g)) (existing_groups two_networks))
   \<and> resolve_twice scenario_config registry_client ''vpc-b'' two_networks =
       (Inr ''sg-2'',
        \<lparr>existing_groups =
           [\<lparr>GroupId = ''sg-1'', GroupName = ''web-sg'', GroupVpcId = ''vpc-a''\<rparr>,
            \<lparr>GroupId = ''sg-2'', GroupName = ''web-sg'', GroupVpcId = ''vpc-b''\<rparr>],
         unused_ids = [''sg-3'']\<rparr>,
        Inr ''sg-1'',
        \<lparr>existing_groups =
           [\<lparr>GroupId = ''sg-1'', GroupName = ''web-sg'', GroupVpcId = ''vpc-a''\<rparr>,
            \<lparr>GroupId = ''sg-2'', GroupName = ''web-sg'', GroupVpcId = ''vpc-b''\<rparr>],
         unused_ids = [''sg-3'']\<rparr>)"
  by (simp add: resolve_twice_def Let_def resolve_in_registry two_networks_def scenario_config_def)

end
